theory Spec2Isabelle
  imports Main
begin

section \<open>Sparse conditional constant propagation: the solver of SCCP.cpp\<close>

text \<open>
  The development embeds the lattice value class \<open>LatticeVal\<close> and the solver class
  \<open>SCCPSolver\<close> of \<^verbatim>\<open>lib/Transforms/Scalar/SCCP.cpp\<close>.  Pointers are identities:
  instructions, blocks, functions and globals are numbers into an arena, and a
  \<^verbatim>\<open>Constant *\<close> is an optional constant (\<open>None\<close> is the null pointer).  An \<^verbatim>\<open>assert\<close>
  that fails, an \<^verbatim>\<open>llvm_unreachable\<close> and an out-of-range access are values of the
  type \<open>error\<close>; every fallible function returns \<open>error + result\<close>.
\<close>

subsection \<open>Errors\<close>

datatype error =
    Assert_MarkingConstantWithDifferentValue
  | Assert_MarkingConstantWithNULL
  | Assert_CannotMoveFromOverdefinedToConstant
  | Assert_CantForceADefinedValue
  | Assert_CannotGetTheConstantOfANonConstant
  | Assert_ShouldUseOtherMethod
  | Assert_ShouldUseGetStructValueState
  | Assert_ShouldUseGetValueState
  | Assert_InvalidElementNo
  | Assert_DestShouldAlwaysBeAlive
  | Assert_VIsNotInValuemap
  | Assert_UnknownState
  | Unreachable_UnknownTerminator
  | Fault_OutOfRange
  | Fault_NullPointer
  | OutOfFuel

definition bindE :: "error + 'a \<Rightarrow> ('a \<Rightarrow> error + 'b) \<Rightarrow> error + 'b" where
  "bindE m f = (case m of Inl e \<Rightarrow> Inl e | Inr x \<Rightarrow> f x)"

fun foldE :: "('a \<Rightarrow> 's \<Rightarrow> error + 's) \<Rightarrow> 'a list \<Rightarrow> 's \<Rightarrow> error + 's" where
  "foldE f [] s = Inr s"
| "foldE f (x # xs) s = bindE (f x s) (foldE f xs)"

subsection \<open>Types and constants of the IR\<close>

text \<open>
  Modelled from the spec: the type and literal-constant domain of the IR
  (\<^verbatim>\<open>llvm/DerivedTypes.h\<close> and \<^verbatim>\<open>llvm/Constants.h\<close> are not among the sources).  The
  constructors are the shapes the solver tells apart with \<^verbatim>\<open>isa\<close> and \<^verbatim>\<open>dyn_cast\<close>:
  the undef sentinel, integer literals, the null pointer, struct literals with their
  sub-constants, the aggregate-zero literal, global variables and functions (both are
  constants of the IR), and any other constant.  Constants are uniqued in the IR, so
  equality of pointers is equality of these terms.
\<close>

type_synonym InstId = nat
type_synonym BlockId = nat
type_synonym FuncId = nat
type_synonym GlobalId = nat

datatype Type =
    VoidTy
  | LabelTy
  | IntegerTy nat
  | PointerTy Type nat
  | StructTy "Type list"
  | VectorTy Type nat
  | OtherTy nat

datatype Constant =
    UndefValue Type
  | ConstantInt nat nat
  | ConstantPointerNull Type
  | ConstantStruct Type "Constant list"
  | ConstantAggregateZero Type
  | GlobalVariable GlobalId Type
  | Function FuncId Type
  | OtherConstant nat Type

type_synonym ConstantPtr = "Constant option"

fun isStructTy :: "Type \<Rightarrow> bool" where
  "isStructTy (StructTy _) = True"
| "isStructTy _ = False"

fun isVoidTy :: "Type \<Rightarrow> bool" where
  "isVoidTy VoidTy = True"
| "isVoidTy _ = False"

fun isVectorTy :: "Type \<Rightarrow> bool" where
  "isVectorTy (VectorTy _ _) = True"
| "isVectorTy _ = False"

fun getNumElements :: "Type \<Rightarrow> nat" where
  "getNumElements (StructTy ts) = length ts"
| "getNumElements _ = 0"

fun getElementType :: "Type \<Rightarrow> nat \<Rightarrow> error + Type" where
  "getElementType (StructTy ts) i = (if i < length ts then Inr (ts ! i) else Inl Fault_OutOfRange)"
| "getElementType _ i = Inl Fault_OutOfRange"

fun Constant_getType :: "Constant \<Rightarrow> Type" where
  "Constant_getType (UndefValue t) = t"
| "Constant_getType (ConstantInt w v) = IntegerTy w"
| "Constant_getType (ConstantPointerNull t) = t"
| "Constant_getType (ConstantStruct t cs) = t"
| "Constant_getType (ConstantAggregateZero t) = t"
| "Constant_getType (GlobalVariable g t) = t"
| "Constant_getType (Function f t) = t"
| "Constant_getType (OtherConstant n t) = t"

fun isUndefValue :: "Constant \<Rightarrow> bool" where
  "isUndefValue (UndefValue _) = True"
| "isUndefValue _ = False"

text \<open>\<^verbatim>\<open>dyn_cast<ConstantInt>\<close>: the pointer itself when it leads to an integer literal.\<close>

fun dyn_cast_ConstantInt :: "ConstantPtr \<Rightarrow> ConstantPtr" where
  "dyn_cast_ConstantInt (Some (ConstantInt w v)) = Some (ConstantInt w v)"
| "dyn_cast_ConstantInt _ = None"

subsection \<open>The class LatticeVal\<close>

datatype LatticeValueTy = undefinedLV | constantLV | forcedconstantLV | overdefinedLV

text \<open>
  \<^verbatim>\<open>PointerIntPair<Constant *, 2, LatticeValueTy> Val\<close>: the pointer and the two-bit tag.
  The pointer survives a move to \<open>overdefinedLV\<close>, since only the tag is set then.
\<close>

record LatticeVal =
  Val_Pointer :: ConstantPtr
  Val_Int :: LatticeValueTy

definition LatticeVal_init :: LatticeVal where
  "LatticeVal_init = \<lparr>Val_Pointer = None, Val_Int = undefinedLV\<rparr>"

definition getLatticeValue :: "LatticeVal \<Rightarrow> LatticeValueTy" where
  "getLatticeValue lv = Val_Int lv"

definition isUndefined :: "LatticeVal \<Rightarrow> bool" where
  "isUndefined lv = (getLatticeValue lv = undefinedLV)"

definition isConstant :: "LatticeVal \<Rightarrow> bool" where
  "isConstant lv = (getLatticeValue lv = constantLV \<or> getLatticeValue lv = forcedconstantLV)"

definition isOverdefined :: "LatticeVal \<Rightarrow> bool" where
  "isOverdefined lv = (getLatticeValue lv = overdefinedLV)"

definition getConstant :: "LatticeVal \<Rightarrow> error + ConstantPtr" where
  "getConstant lv =
     (if isConstant lv then Inr (Val_Pointer lv)
      else Inl Assert_CannotGetTheConstantOfANonConstant)"

text \<open>The \<open>mark\<close> methods return the "changed" flag together with the new value of \<open>*this\<close>.\<close>

definition LatticeVal_markOverdefined :: "LatticeVal \<Rightarrow> bool \<times> LatticeVal" where
  "LatticeVal_markOverdefined lv =
     (if isOverdefined lv then (False, lv)
      else (True, lv\<lparr>Val_Int := overdefinedLV\<rparr>))"

definition LatticeVal_markConstant :: "ConstantPtr \<Rightarrow> LatticeVal \<Rightarrow> error + bool \<times> LatticeVal" where
  "LatticeVal_markConstant V lv =
     (if getLatticeValue lv = constantLV then
        bindE (getConstant lv) (\<lambda>c.
          if c = V then Inr (False, lv)
          else Inl Assert_MarkingConstantWithDifferentValue)
      else if isUndefined lv then
        (if V = None then Inl Assert_MarkingConstantWithNULL
         else Inr (True, lv\<lparr>Val_Int := constantLV, Val_Pointer := V\<rparr>))
      else if getLatticeValue lv \<noteq> forcedconstantLV then
        Inl Assert_CannotMoveFromOverdefinedToConstant
      else
        bindE (getConstant lv) (\<lambda>c.
          if V = c then Inr (False, lv)
          else Inr (True, lv\<lparr>Val_Int := overdefinedLV\<rparr>)))"

definition getConstantInt :: "LatticeVal \<Rightarrow> error + ConstantPtr" where
  "getConstantInt lv =
     (if isConstant lv then bindE (getConstant lv) (\<lambda>c. Inr (dyn_cast_ConstantInt c))
      else Inr None)"

definition LatticeVal_markForcedConstant :: "ConstantPtr \<Rightarrow> LatticeVal \<Rightarrow> error + LatticeVal" where
  "LatticeVal_markForcedConstant V lv =
     (if isUndefined lv then Inr (lv\<lparr>Val_Int := forcedconstantLV, Val_Pointer := V\<rparr>)
      else Inl Assert_CantForceADefinedValue)"

text \<open>
  The abstract states of the lattice: \<open>Undefined\<close>, \<open>Constant c\<close>, \<open>ForcedConstant c\<close>
  and \<open>Overdefined\<close>, read off a \<open>LatticeVal\<close>, and their height in the lattice.
\<close>

definition isConstantOf :: "LatticeVal \<Rightarrow> Constant \<Rightarrow> bool" where
  "isConstantOf lv c = (Val_Int lv = constantLV \<and> Val_Pointer lv = Some c)"

definition isForcedConstantOf :: "LatticeVal \<Rightarrow> Constant \<Rightarrow> bool" where
  "isForcedConstantOf lv c = (Val_Int lv = forcedconstantLV \<and> Val_Pointer lv = Some c)"





subsection \<open>Instructions, blocks and functions\<close>

text \<open>
  Modelled from the spec: the IR graph the solver consumes (\<^verbatim>\<open>llvm/Instructions.h\<close>,
  \<^verbatim>\<open>llvm/BasicBlock.h\<close> and \<^verbatim>\<open>llvm/Function.h\<close> are not among the sources): a graph of
  basic blocks, each an ordered sequence of instructions, each instruction with an
  opcode tag, a typed result and an ordered list of operand references.  The arena is
  addressed by stable handles, as a reimplementation is advised to do.
\<close>

datatype Opcode =
    Ret | Br | Switch | IndirectBr | Invoke | Unwind | Unreachable
  | Add | FAdd | Sub | FSub | Mul | FMul | UDiv | SDiv | FDiv | URem | SRem | FRem
  | Shl | LShr | AShr | And | Or | Xor
  | Alloca | Load | Store | GetElementPtr
  | Trunc | ZExt | SExt | FPToUI | FPToSI | UIToFP | SIToFP | FPTrunc | FPExt
  | PtrToInt | IntToPtr | BitCast
  | ICmp | FCmp | PHI | Call | Select | UserOp1 | UserOp2 | VAArg
  | ExtractElement | InsertElement | ShuffleVector | ExtractValue | InsertValue

fun isTerminatorOp :: "Opcode \<Rightarrow> bool" where
  "isTerminatorOp Ret = True"
| "isTerminatorOp Br = True"
| "isTerminatorOp Switch = True"
| "isTerminatorOp IndirectBr = True"
| "isTerminatorOp Invoke = True"
| "isTerminatorOp Unwind = True"
| "isTerminatorOp Unreachable = True"
| "isTerminatorOp _ = False"

definition isBinaryOp :: "Opcode \<Rightarrow> bool" where
  "isBinaryOp opc = (opc \<in> {Add, FAdd, Sub, FSub, Mul, FMul, UDiv, SDiv, FDiv, URem, SRem, FRem,
                              Shl, LShr, AShr, And, Or, Xor})"

definition isCastOp :: "Opcode \<Rightarrow> bool" where
  "isCastOp opc = (opc \<in> {Trunc, ZExt, SExt, FPToUI, FPToSI, UIToFP, SIToFP, FPTrunc, FPExt,
                            PtrToInt, IntToPtr, BitCast})"

datatype Value =
    Inst InstId
  | Argument FuncId nat Type
  | Const Constant
  | OtherValue nat Type

text \<open>
  \<open>Operands\<close> holds the value operands in the order of the IR's operand list: the two
  operands of a binary operator or comparison; condition, true value and false value of a
  select; the incoming values of a PHI node (their blocks are \<open>IncomingBlocks\<close>); the
  stored value and the pointer of a store; the arguments followed by the callee of a call
  or invoke; the condition alone of a conditional branch or switch.  The block operands
  of a terminator are \<open>Successors\<close>, in successor order: true then false destination of
  a conditional branch, default destination then the cases of a switch.  \<open>CaseValues\<close>
  are the case constants of a switch for the successors \<open>1, 2, ...\<close>.
\<close>

record Instruction =
  Inst_Opcode :: Opcode
  Inst_Type :: Type
  Operands :: "Value list"
  Inst_Parent :: BlockId
  IncomingBlocks :: "BlockId list"
  Predicate :: nat
  Indices :: "nat list"
  isVolatile :: bool
  PointerAddressSpace :: nat
  Successors :: "BlockId list"
  CaseValues :: "Constant list"

record BasicBlock =
  Insts :: "InstId list"
  BB_Parent :: FuncId

record FunctionInfo =
  Blocks :: "BlockId list"
  Args :: "(Type \<times> bool) list"
  ReturnType :: Type
  Function_Type :: Type
  onlyReadsMemory :: bool

record Module =
  getInst :: "InstId \<Rightarrow> Instruction"
  getBlock :: "BlockId \<Rightarrow> BasicBlock"
  getFunction :: "FuncId \<Rightarrow> FunctionInfo"
  uses :: "Value \<Rightarrow> Value list"

fun Value_getType :: "Module \<Rightarrow> Value \<Rightarrow> Type" where
  "Value_getType M (Inst i) = Inst_Type (getInst M i)"
| "Value_getType M (Argument f k t) = t"
| "Value_getType M (Const c) = Constant_getType c"
| "Value_getType M (OtherValue n t) = t"

definition getNumOperands :: "Instruction \<Rightarrow> nat" where
  "getNumOperands I = length (Operands I) + length (Successors I) + length (CaseValues I)"

text \<open>
  \<open>getOperand\<close> reaches the value operands.  The block operands and case values that
  follow them in the operand list of a terminator are reached through \<open>getSuccessor\<close>
  and \<open>getCaseValue\<close>; the solver never reads them as values.
\<close>

definition getOperand :: "Instruction \<Rightarrow> nat \<Rightarrow> error + Value" where
  "getOperand I i = (if i < length (Operands I) then Inr (Operands I ! i) else Inl Fault_OutOfRange)"

definition getNumSuccessors :: "Instruction \<Rightarrow> nat" where
  "getNumSuccessors TI = length (Successors TI)"

definition getSuccessor :: "Instruction \<Rightarrow> nat \<Rightarrow> error + BlockId" where
  "getSuccessor TI i =
     (if i < length (Successors TI) then Inr (Successors TI ! i) else Inl Fault_OutOfRange)"

definition getCaseValue :: "Instruction \<Rightarrow> nat \<Rightarrow> error + Constant" where
  "getCaseValue SI i =
     (if 0 < i \<and> i < getNumSuccessors SI \<and> i - 1 < length (CaseValues SI)
      then Inr (CaseValues SI ! (i - 1)) else Inl Fault_OutOfRange)"

definition isUnconditional :: "Instruction \<Rightarrow> bool" where
  "isUnconditional BI = (getNumOperands BI = 1)"

definition isConditional :: "Instruction \<Rightarrow> bool" where
  "isConditional BI = (getNumOperands BI = 3)"

definition getCondition :: "Instruction \<Rightarrow> error + Value" where
  "getCondition TI = getOperand TI 0"

definition getTerminator :: "Module \<Rightarrow> BlockId \<Rightarrow> InstId option" where
  "getTerminator M BB =
     (case Insts (getBlock M BB) of
        [] \<Rightarrow> None
      | _ \<Rightarrow> (let I = last (Insts (getBlock M BB))
              in if isTerminatorOp (Inst_Opcode (getInst M I)) then Some I else None))"

definition isPHINode :: "Module \<Rightarrow> Value \<Rightarrow> bool" where
  "isPHINode M V = (case V of Inst i \<Rightarrow> Inst_Opcode (getInst M i) = PHI | _ \<Rightarrow> False)"

definition getNumIncomingValues :: "Instruction \<Rightarrow> nat" where
  "getNumIncomingValues PN = length (Operands PN)"

definition getIncomingValue :: "Instruction \<Rightarrow> nat \<Rightarrow> error + Value" where
  "getIncomingValue PN i = getOperand PN i"

definition getIncomingBlock :: "Instruction \<Rightarrow> nat \<Rightarrow> error + BlockId" where
  "getIncomingBlock PN i =
     (if i < length (IncomingBlocks PN) then Inr (IncomingBlocks PN ! i) else Inl Fault_OutOfRange)"

fun getBasicBlockIndex :: "BlockId list \<Rightarrow> BlockId \<Rightarrow> nat option" where
  "getBasicBlockIndex [] BB = None"
| "getBasicBlockIndex (b # bs) BB =
     (if b = BB then Some 0 else map_option Suc (getBasicBlockIndex bs BB))"

definition getIncomingValueForBlock :: "Instruction \<Rightarrow> BlockId \<Rightarrow> error + Value" where
  "getIncomingValueForBlock PN BB =
     (case getBasicBlockIndex (IncomingBlocks PN) BB of
        None \<Rightarrow> Inl Fault_OutOfRange
      | Some i \<Rightarrow> getIncomingValue PN i)"

text \<open>The integer literals: truth value, all-ones test and the literal \<open>false\<close>.\<close>

fun isZero :: "Constant \<Rightarrow> bool" where
  "isZero (ConstantInt w v) = (v = 0)"
| "isZero _ = False"

fun isAllOnesValue :: "Constant \<Rightarrow> bool" where
  "isAllOnesValue (ConstantInt w v) = (Suc v = 2 ^ w)"
| "isAllOnesValue _ = False"

definition ConstantInt_getFalse :: Constant where
  "ConstantInt_getFalse = ConstantInt 1 0"

text \<open>
  The constant folder and the other services of the IR library the solver calls; their
  code is outside this file, so every theorem holds for any choice of them.
\<close>

record Externals =
  Constant_getNullValue :: "Type \<Rightarrow> Constant"
  Constant_getAllOnesValue :: "Type \<Rightarrow> Constant"
  isNullValue :: "Constant \<Rightarrow> bool"
  ConstantExpr_get :: "Opcode \<Rightarrow> Constant \<Rightarrow> Constant \<Rightarrow> Constant"
  ConstantExpr_getCast :: "Opcode \<Rightarrow> Constant \<Rightarrow> Type \<Rightarrow> Constant"
  ConstantExpr_getCompare :: "nat \<Rightarrow> Constant \<Rightarrow> Constant \<Rightarrow> Constant"
  ConstantExpr_getGetElementPtr :: "Constant \<Rightarrow> Constant list \<Rightarrow> Constant"
  ConstantFoldLoadFromConstPtr :: "Constant \<Rightarrow> ConstantPtr"
  canConstantFoldCallTo :: "FuncId \<Rightarrow> bool"
  ConstantFoldCall :: "FuncId \<Rightarrow> Constant list \<Rightarrow> ConstantPtr"

definition nonnull :: "ConstantPtr \<Rightarrow> error + Constant" where
  "nonnull p = (case p of None \<Rightarrow> Inl Fault_NullPointer | Some c \<Rightarrow> Inr c)"

subsection \<open>The state of SCCPSolver\<close>

text \<open>
  The members of the class.  \<open>IR\<close> is the module the instruction pointers lead into;
  the solver holds no copy of it, but the undefined-value resolution writes to it through
  those pointers, so it is part of the state every method transforms.  The work lists
  are vectors used as stacks: \<open>push_back\<close> appends and \<open>pop_back_val\<close> takes the last.
\<close>

record SCCPSolver =
  IR :: Module
  BBExecutable :: "BlockId set"
  ValueState :: "Value \<rightharpoonup> LatticeVal"
  StructValueState :: "Value \<times> nat \<rightharpoonup> LatticeVal"
  TrackedGlobals :: "GlobalId \<rightharpoonup> LatticeVal"
  TrackedRetVals :: "FuncId \<rightharpoonup> LatticeVal"
  TrackedMultipleRetVals :: "FuncId \<times> nat \<rightharpoonup> LatticeVal"
  MRVFunctionsTracked :: "FuncId set"
  TrackingIncomingArguments :: "FuncId set"
  OverdefinedInstWorkList :: "Value list"
  InstWorkList :: "Value list"
  BBWorkList :: "BlockId list"
  UsersOfOverdefinedPHIs :: "(InstId \<times> InstId) list"
  KnownFeasibleEdges :: "(BlockId \<times> BlockId) set"

text \<open>
  A \<^verbatim>\<open>LatticeVal &\<close> is a reference to an entry of one of the five maps.  A reference is
  only taken to an entry that exists (\<^verbatim>\<open>operator[]\<close>, \<^verbatim>\<open>insert\<close> and a successful
  \<^verbatim>\<open>find\<close> produce it), so the default of \<open>deref\<close> is never read.
\<close>

datatype LVRef =
    ValueStateRef Value
  | StructValueStateRef Value nat
  | TrackedGlobalsRef GlobalId
  | TrackedRetValsRef FuncId
  | TrackedMultipleRetValsRef FuncId nat

definition orInit :: "LatticeVal option \<Rightarrow> LatticeVal" where
  "orInit x = (case x of None \<Rightarrow> LatticeVal_init | Some lv \<Rightarrow> lv)"

fun deref :: "SCCPSolver \<Rightarrow> LVRef \<Rightarrow> LatticeVal" where
  "deref st (ValueStateRef V) = orInit (ValueState st V)"
| "deref st (StructValueStateRef V i) = orInit (StructValueState st (V, i))"
| "deref st (TrackedGlobalsRef G) = orInit (TrackedGlobals st G)"
| "deref st (TrackedRetValsRef F) = orInit (TrackedRetVals st F)"
| "deref st (TrackedMultipleRetValsRef F i) = orInit (TrackedMultipleRetVals st (F, i))"

fun assign :: "LVRef \<Rightarrow> LatticeVal \<Rightarrow> SCCPSolver \<Rightarrow> SCCPSolver" where
  "assign (ValueStateRef V) lv st = st\<lparr>ValueState := (ValueState st)(V \<mapsto> lv)\<rparr>"
| "assign (StructValueStateRef V i) lv st =
     st\<lparr>StructValueState := (StructValueState st)((V, i) \<mapsto> lv)\<rparr>"
| "assign (TrackedGlobalsRef G) lv st = st\<lparr>TrackedGlobals := (TrackedGlobals st)(G \<mapsto> lv)\<rparr>"
| "assign (TrackedRetValsRef F) lv st = st\<lparr>TrackedRetVals := (TrackedRetVals st)(F \<mapsto> lv)\<rparr>"
| "assign (TrackedMultipleRetValsRef F i) lv st =
     st\<lparr>TrackedMultipleRetVals := (TrackedMultipleRetVals st)((F, i) \<mapsto> lv)\<rparr>"

text \<open>\<^verbatim>\<open>ValueState[V]\<close>: the entry is created undefined when it is missing.\<close>

definition ValueState_index :: "Value \<Rightarrow> SCCPSolver \<Rightarrow> SCCPSolver" where
  "ValueState_index V st =
     (case ValueState st V of
        None \<Rightarrow> st\<lparr>ValueState := (ValueState st)(V \<mapsto> LatticeVal_init)\<rparr>
      | Some lv \<Rightarrow> st)"

definition TrackedMultipleRetVals_index :: "FuncId \<times> nat \<Rightarrow> SCCPSolver \<Rightarrow> SCCPSolver" where
  "TrackedMultipleRetVals_index k st =
     (case TrackedMultipleRetVals st k of
        None \<Rightarrow> st\<lparr>TrackedMultipleRetVals := (TrackedMultipleRetVals st)(k \<mapsto> LatticeVal_init)\<rparr>
      | Some lv \<Rightarrow> st)"

definition typeOf :: "SCCPSolver \<Rightarrow> Value \<Rightarrow> Type" where
  "typeOf st V = Value_getType (IR st) V"

definition MarkBlockExecutable :: "BlockId \<Rightarrow> SCCPSolver \<Rightarrow> bool \<times> SCCPSolver" where
  "MarkBlockExecutable BB st =
     (if BB \<in> BBExecutable st then (False, st)
      else (True, st\<lparr>BBExecutable := insert BB (BBExecutable st),
                      BBWorkList := BBWorkList st @ [BB]\<rparr>))"

definition isBlockExecutable :: "SCCPSolver \<Rightarrow> BlockId \<Rightarrow> bool" where
  "isBlockExecutable st BB = (BB \<in> BBExecutable st)"

definition getLatticeValueFor :: "SCCPSolver \<Rightarrow> Value \<Rightarrow> error + LatticeVal" where
  "getLatticeValueFor st V =
     (case ValueState st V of None \<Rightarrow> Inl Assert_VIsNotInValuemap | Some lv \<Rightarrow> Inr lv)"

text \<open>The private \<open>mark\<close> methods on a reference: update the entry and queue the value.\<close>

definition markConstant_ref :: "LVRef \<Rightarrow> Value \<Rightarrow> ConstantPtr \<Rightarrow> SCCPSolver \<Rightarrow> error + SCCPSolver" where
  "markConstant_ref IV V C st =
     bindE (LatticeVal_markConstant C (deref st IV)) (\<lambda>(changed, lv).
       if \<not> changed then Inr st
       else (let st1 = assign IV lv st
             in if isOverdefined lv
                then Inr (st1\<lparr>OverdefinedInstWorkList := OverdefinedInstWorkList st1 @ [V]\<rparr>)
                else Inr (st1\<lparr>InstWorkList := InstWorkList st1 @ [V]\<rparr>)))"

definition markConstant :: "Value \<Rightarrow> ConstantPtr \<Rightarrow> SCCPSolver \<Rightarrow> error + SCCPSolver" where
  "markConstant V C st =
     (if isStructTy (typeOf st V) then Inl Assert_ShouldUseOtherMethod
      else markConstant_ref (ValueStateRef V) V C (ValueState_index V st))"

definition markForcedConstant :: "Value \<Rightarrow> ConstantPtr \<Rightarrow> SCCPSolver \<Rightarrow> error + SCCPSolver" where
  "markForcedConstant V C st =
     (if isStructTy (typeOf st V) then Inl Assert_ShouldUseOtherMethod
      else (let st0 = ValueState_index V st
            in bindE (LatticeVal_markForcedConstant C (deref st0 (ValueStateRef V))) (\<lambda>lv.
                 let st1 = assign (ValueStateRef V) lv st0
                 in if isOverdefined lv
                    then Inr (st1\<lparr>OverdefinedInstWorkList := OverdefinedInstWorkList st1 @ [V]\<rparr>)
                    else Inr (st1\<lparr>InstWorkList := InstWorkList st1 @ [V]\<rparr>))))"

definition markOverdefined_ref :: "LVRef \<Rightarrow> Value \<Rightarrow> SCCPSolver \<Rightarrow> SCCPSolver" where
  "markOverdefined_ref IV V st =
     (case LatticeVal_markOverdefined (deref st IV) of
        (changed, lv) \<Rightarrow>
          if \<not> changed then st
          else (let st1 = assign IV lv st
                in st1\<lparr>OverdefinedInstWorkList := OverdefinedInstWorkList st1 @ [V]\<rparr>))"

definition markOverdefined :: "Value \<Rightarrow> SCCPSolver \<Rightarrow> error + SCCPSolver" where
  "markOverdefined V st =
     (if isStructTy (typeOf st V) then Inl Assert_ShouldUseOtherMethod
      else Inr (markOverdefined_ref (ValueStateRef V) V (ValueState_index V st)))"

definition mergeInValue_ref :: "LVRef \<Rightarrow> Value \<Rightarrow> LatticeVal \<Rightarrow> SCCPSolver \<Rightarrow> error + SCCPSolver" where
  "mergeInValue_ref IV V MergeWithV st =
     (if isOverdefined (deref st IV) \<or> isUndefined MergeWithV then Inr st
      else if isOverdefined MergeWithV then Inr (markOverdefined_ref IV V st)
      else if isUndefined (deref st IV) then
        bindE (getConstant MergeWithV) (\<lambda>c. markConstant_ref IV V c st)
      else
        bindE (getConstant (deref st IV)) (\<lambda>c1.
        bindE (getConstant MergeWithV) (\<lambda>c2.
          if c1 \<noteq> c2 then Inr (markOverdefined_ref IV V st) else Inr st)))"

definition mergeInValue :: "Value \<Rightarrow> LatticeVal \<Rightarrow> SCCPSolver \<Rightarrow> error + SCCPSolver" where
  "mergeInValue V MergeWithV st =
     (if isStructTy (typeOf st V) then Inl Assert_ShouldUseOtherMethod
      else mergeInValue_ref (ValueStateRef V) V MergeWithV (ValueState_index V st))"

text \<open>
  \<open>getValueState\<close> returns the reference \<open>ValueStateRef V\<close>; the model returns the state
  in which that entry exists, and \<open>getValueState_val\<close> the copy most callers take.
\<close>

definition getValueState :: "Value \<Rightarrow> SCCPSolver \<Rightarrow> error + SCCPSolver" where
  "getValueState V st =
     (if isStructTy (typeOf st V) then Inl Assert_ShouldUseGetStructValueState
      else (case ValueState st V of
              Some lv \<Rightarrow> Inr st
            | None \<Rightarrow>
               (case V of
                  Const C \<Rightarrow>
                    if \<not> isUndefValue C then
                      bindE (LatticeVal_markConstant (Some C) LatticeVal_init) (\<lambda>(changed, lv).
                        Inr (st\<lparr>ValueState := (ValueState st)(V \<mapsto> lv)\<rparr>))
                    else Inr (st\<lparr>ValueState := (ValueState st)(V \<mapsto> LatticeVal_init)\<rparr>)
                | _ \<Rightarrow> Inr (st\<lparr>ValueState := (ValueState st)(V \<mapsto> LatticeVal_init)\<rparr>))))"

definition getValueState_val :: "Value \<Rightarrow> SCCPSolver \<Rightarrow> error + LatticeVal \<times> SCCPSolver" where
  "getValueState_val V st =
     bindE (getValueState V st) (\<lambda>st1. Inr (deref st1 (ValueStateRef V), st1))"

definition getStructValueState :: "Externals \<Rightarrow> Value \<Rightarrow> nat \<Rightarrow> SCCPSolver \<Rightarrow> error + SCCPSolver" where
  "getStructValueState ext V i st =
     (if \<not> isStructTy (typeOf st V) then Inl Assert_ShouldUseGetValueState
      else if \<not> i < getNumElements (typeOf st V) then Inl Assert_InvalidElementNo
      else (case StructValueState st (V, i) of
              Some lv \<Rightarrow> Inr st
            | None \<Rightarrow>
               (case V of
                  Const C \<Rightarrow>
                    (case C of
                       UndefValue t \<Rightarrow>
                         Inr (st\<lparr>StructValueState := (StructValueState st)((V, i) \<mapsto> LatticeVal_init)\<rparr>)
                     | ConstantStruct t cs \<Rightarrow>
                         if i < length cs then
                           bindE (LatticeVal_markConstant (Some (cs ! i)) LatticeVal_init)
                             (\<lambda>(changed, lv).
                               Inr (st\<lparr>StructValueState := (StructValueState st)((V, i) \<mapsto> lv)\<rparr>))
                         else Inl Fault_OutOfRange
                     | ConstantAggregateZero t \<Rightarrow>
                         bindE (getElementType (typeOf st V) i) (\<lambda>FieldTy.
                         bindE (LatticeVal_markConstant (Some (Constant_getNullValue ext FieldTy))
                                  LatticeVal_init)
                           (\<lambda>(changed, lv).
                             Inr (st\<lparr>StructValueState := (StructValueState st)((V, i) \<mapsto> lv)\<rparr>)))
                     | _ \<Rightarrow>
                         Inr (st\<lparr>StructValueState := (StructValueState st)((V, i) \<mapsto>
                                   snd (LatticeVal_markOverdefined LatticeVal_init))\<rparr>))
                | _ \<Rightarrow>
                    Inr (st\<lparr>StructValueState := (StructValueState st)((V, i) \<mapsto> LatticeVal_init)\<rparr>))))"

definition getStructValueState_val ::
  "Externals \<Rightarrow> Value \<Rightarrow> nat \<Rightarrow> SCCPSolver \<Rightarrow> error + LatticeVal \<times> SCCPSolver" where
  "getStructValueState_val ext V i st =
     bindE (getStructValueState ext V i st) (\<lambda>st1. Inr (deref st1 (StructValueStateRef V i), st1))"

text \<open>\<open>markAnythingOverdefined\<close>: every field of a struct, or the scalar.\<close>

definition markAnythingOverdefined :: "Externals \<Rightarrow> Value \<Rightarrow> SCCPSolver \<Rightarrow> error + SCCPSolver" where
  "markAnythingOverdefined ext V st =
     (if isStructTy (typeOf st V) then
        foldE (\<lambda>i s. bindE (getStructValueState ext V i s) (\<lambda>s1.
                 Inr (markOverdefined_ref (StructValueStateRef V i) V s1)))
          [0 ..< getNumElements (typeOf st V)] st
      else markOverdefined V st)"

subsection \<open>Feasible edges\<close>

definition setSucc :: "bool list \<Rightarrow> nat \<Rightarrow> error + bool list" where
  "setSucc Succs i = (if i < length Succs then Inr (Succs[i := True]) else Inl Fault_OutOfRange)"

text \<open>
  The search of a switch for the case equal to \<open>CI\<close>, as the loop of \<open>isEdgeFeasible\<close>
  runs it over the successors \<open>1, 2, ...\<close>; \<^verbatim>\<open>SwitchInst::findCaseValue\<close> is the same
  search and answers \<open>0\<close>, the default, when no case matches.
\<close>

fun findTakenCase :: "Instruction \<Rightarrow> Constant \<Rightarrow> nat list \<Rightarrow> error + nat option" where
  "findTakenCase SI CI [] = Inr None"
| "findTakenCase SI CI (i # is) =
     bindE (getCaseValue SI i) (\<lambda>v. if v = CI then Inr (Some i) else findTakenCase SI CI is)"

definition findCaseValue :: "Instruction \<Rightarrow> Constant \<Rightarrow> error + nat" where
  "findCaseValue SI CI =
     bindE (findTakenCase SI CI [1 ..< getNumSuccessors SI])
       (\<lambda>r. Inr (case r of None \<Rightarrow> 0 | Some i \<Rightarrow> i))"

definition getFeasibleSuccessors ::
  "Externals \<Rightarrow> InstId \<Rightarrow> SCCPSolver \<Rightarrow> error + bool list \<times> SCCPSolver" where
  "getFeasibleSuccessors ext TI st =
     (let T = getInst (IR st) TI;
          Succs = replicate (getNumSuccessors T) False
      in if Inst_Opcode T = Br then
           (if isUnconditional T then bindE (setSucc Succs 0) (\<lambda>S. Inr (S, st))
            else
              bindE (getCondition T) (\<lambda>Cond.
              bindE (getValueState_val Cond st) (\<lambda>(BCValue, st1).
              bindE (getConstantInt BCValue) (\<lambda>CI.
                case CI of
                  None \<Rightarrow>
                    if \<not> isUndefined BCValue then
                      bindE (setSucc Succs 1) (\<lambda>S1. bindE (setSucc S1 0) (\<lambda>S. Inr (S, st1)))
                    else Inr (Succs, st1)
                | Some ci \<Rightarrow>
                    bindE (setSucc Succs (if isZero ci then 1 else 0)) (\<lambda>S. Inr (S, st1))))))
         else if Inst_Opcode T = Invoke then
           bindE (setSucc Succs 1) (\<lambda>S1. bindE (setSucc S1 0) (\<lambda>S. Inr (S, st)))
         else if Inst_Opcode T = Switch then
           bindE (getCondition T) (\<lambda>Cond.
           bindE (getValueState_val Cond st) (\<lambda>(SCValue, st1).
           bindE (getConstantInt SCValue) (\<lambda>CI.
             case CI of
               None \<Rightarrow>
                 if \<not> isUndefined SCValue
                 then Inr (replicate (getNumSuccessors T) True, st1)
                 else Inr (Succs, st1)
             | Some ci \<Rightarrow>
                 bindE (findCaseValue T ci) (\<lambda>i.
                 bindE (setSucc Succs i) (\<lambda>S. Inr (S, st1))))))
         else if Inst_Opcode T = IndirectBr then
           Inr (replicate (getNumSuccessors T) True, st)
         else Inl Unreachable_UnknownTerminator)"

definition isEdgeFeasible ::
  "Externals \<Rightarrow> BlockId \<Rightarrow> BlockId \<Rightarrow> SCCPSolver \<Rightarrow> error + bool \<times> SCCPSolver" where
  "isEdgeFeasible ext From To st =
     (if To \<notin> BBExecutable st then Inl Assert_DestShouldAlwaysBeAlive
      else if From \<notin> BBExecutable st then Inr (False, st)
      else
        (case getTerminator (IR st) From of
           None \<Rightarrow> Inl Fault_NullPointer
         | Some TI \<Rightarrow>
            (let T = getInst (IR st) TI
             in if Inst_Opcode T = Br then
                  (if isUnconditional T then Inr (True, st)
                   else
                     bindE (getCondition T) (\<lambda>Cond.
                     bindE (getValueState_val Cond st) (\<lambda>(BCValue, st1).
                     bindE (getConstantInt BCValue) (\<lambda>CI.
                       case CI of
                         None \<Rightarrow> Inr (\<not> isUndefined BCValue, st1)
                       | Some ci \<Rightarrow>
                           bindE (getSuccessor T (if isZero ci then 1 else 0))
                             (\<lambda>S. Inr (S = To, st1))))))
                else if Inst_Opcode T = Invoke then Inr (True, st)
                else if Inst_Opcode T = Switch then
                  bindE (getCondition T) (\<lambda>Cond.
                  bindE (getValueState_val Cond st) (\<lambda>(SCValue, st1).
                  bindE (getConstantInt SCValue) (\<lambda>CI.
                    case CI of
                      None \<Rightarrow> Inr (\<not> isUndefined SCValue, st1)
                    | Some ci \<Rightarrow>
                        bindE (findTakenCase T ci [1 ..< getNumSuccessors T]) (\<lambda>r.
                          case r of
                            Some i \<Rightarrow> bindE (getSuccessor T i) (\<lambda>S. Inr (S = To, st1))
                          | None \<Rightarrow> bindE (getSuccessor T 0) (\<lambda>S. Inr (S = To, st1))))))
                else if Inst_Opcode T = IndirectBr then Inr (True, st)
                else Inl Unreachable_UnknownTerminator)))"

subsection \<open>The visitors\<close>

text \<open>
  \<open>visit\<close> dispatches on the instruction and the visitors of PHI nodes and terminators
  call it back, so they take it as their first argument; the knot is tied by \<open>visit\<close>
  below.
\<close>

type_synonym Visitor = "InstId \<Rightarrow> SCCPSolver \<Rightarrow> error + SCCPSolver"

fun visitPHINode_operands ::
  "Externals \<Rightarrow> InstId \<Rightarrow> Instruction \<Rightarrow> nat list \<Rightarrow> ConstantPtr \<Rightarrow> SCCPSolver \<Rightarrow> error + SCCPSolver"
where
  "visitPHINode_operands ext PN P [] OperandVal st =
     (if OperandVal \<noteq> None then markConstant (Inst PN) OperandVal st else Inr st)"
| "visitPHINode_operands ext PN P (i # is) OperandVal st =
     bindE (getIncomingValue P i) (\<lambda>V.
     bindE (getValueState_val V st) (\<lambda>(IV, st1).
       if isUndefined IV then visitPHINode_operands ext PN P is OperandVal st1
       else
         bindE (getIncomingBlock P i) (\<lambda>B.
         bindE (isEdgeFeasible ext B (Inst_Parent P) st1) (\<lambda>(feasible, st2).
           if \<not> feasible then visitPHINode_operands ext PN P is OperandVal st2
           else if isOverdefined IV then markOverdefined (Inst PN) st2
           else if OperandVal = None then
             bindE (getConstant IV) (\<lambda>c. visitPHINode_operands ext PN P is c st2)
           else
             bindE (getConstant IV) (\<lambda>c.
               if c \<noteq> OperandVal then markOverdefined (Inst PN) st2
               else visitPHINode_operands ext PN P is OperandVal st2)))))"

definition visitPHINode :: "Visitor \<Rightarrow> Externals \<Rightarrow> InstId \<Rightarrow> SCCPSolver \<Rightarrow> error + SCCPSolver" where
  "visitPHINode visit ext PN st =
     (let P = getInst (IR st) PN
      in if isStructTy (Inst_Type P) then markAnythingOverdefined ext (Inst PN) st
         else
           bindE (getValueState_val (Inst PN) st) (\<lambda>(PNState, st1).
             if isOverdefined PNState then
               (let Users = map snd (filter (\<lambda>e. fst e = PN) (UsersOfOverdefinedPHIs st1))
                in if Users = [] then Inr st1
                   else foldE visit (rev Users) st1)
             else if getNumIncomingValues P > 64 then markOverdefined (Inst PN) st1
             else visitPHINode_operands ext PN P [0 ..< getNumIncomingValues P] None st1))"

definition markEdgeExecutable ::
  "Visitor \<Rightarrow> Externals \<Rightarrow> BlockId \<Rightarrow> BlockId \<Rightarrow> SCCPSolver \<Rightarrow> error + SCCPSolver" where
  "markEdgeExecutable visit ext Source Dest st =
     (if (Source, Dest) \<in> KnownFeasibleEdges st then Inr st
      else
        (case MarkBlockExecutable Dest
                (st\<lparr>KnownFeasibleEdges := insert (Source, Dest) (KnownFeasibleEdges st)\<rparr>) of
           (True, st1) \<Rightarrow> Inr st1
         | (False, st1) \<Rightarrow>
             foldE (visitPHINode visit ext)
               (takeWhile (\<lambda>I. Inst_Opcode (getInst (IR st1) I) = PHI) (Insts (getBlock (IR st1) Dest)))
               st1))"

definition visitTerminatorInst ::
  "Visitor \<Rightarrow> Externals \<Rightarrow> InstId \<Rightarrow> SCCPSolver \<Rightarrow> error + SCCPSolver" where
  "visitTerminatorInst visit ext TI st =
     bindE (getFeasibleSuccessors ext TI st) (\<lambda>(SuccFeasible, st1).
       let BB = Inst_Parent (getInst (IR st1) TI)
       in foldE (\<lambda>i s. if SuccFeasible ! i
                        then bindE (getSuccessor (getInst (IR s) TI) i)
                               (\<lambda>Dest. markEdgeExecutable visit ext BB Dest s)
                        else Inr s)
            [0 ..< length SuccFeasible] st1)"

definition FunctionValue :: "SCCPSolver \<Rightarrow> FuncId \<Rightarrow> Value" where
  "FunctionValue st F = Const (Function F (Function_Type (getFunction (IR st) F)))"

definition visitReturnInst :: "Externals \<Rightarrow> InstId \<Rightarrow> SCCPSolver \<Rightarrow> error + SCCPSolver" where
  "visitReturnInst ext I st =
     (let R = getInst (IR st) I
      in if getNumOperands R = 0 then Inr st
         else
           (let F = BB_Parent (getBlock (IR st) (Inst_Parent R))
            in bindE (getOperand R 0) (\<lambda>ResultOp.
                 if TrackedRetVals st \<noteq> Map.empty \<and> \<not> isStructTy (typeOf st ResultOp)
                    \<and> TrackedRetVals st F \<noteq> None
                 then
                   bindE (getValueState_val ResultOp st) (\<lambda>(lv, st1).
                     mergeInValue_ref (TrackedRetValsRef F) (FunctionValue st1 F) lv st1)
                 else if TrackedMultipleRetVals st \<noteq> Map.empty \<and> isStructTy (typeOf st ResultOp)
                         \<and> F \<in> MRVFunctionsTracked st
                 then
                   foldE (\<lambda>i s.
                            bindE (getStructValueState_val ext ResultOp i s) (\<lambda>(lv, s1).
                              mergeInValue_ref (TrackedMultipleRetValsRef F i) (FunctionValue s1 F) lv
                                (TrackedMultipleRetVals_index (F, i) s1)))
                     [0 ..< getNumElements (typeOf st ResultOp)] st
                 else Inr st)))"

definition visitCastInst :: "Externals \<Rightarrow> InstId \<Rightarrow> SCCPSolver \<Rightarrow> error + SCCPSolver" where
  "visitCastInst ext I st =
     (let C = getInst (IR st) I
      in bindE (getOperand C 0) (\<lambda>Op.
         bindE (getValueState_val Op st) (\<lambda>(OpSt, st1).
           if isOverdefined OpSt then markOverdefined (Inst I) st1
           else if isConstant OpSt then
             bindE (getConstant OpSt) (\<lambda>p. bindE (nonnull p) (\<lambda>c.
               markConstant (Inst I)
                 (Some (ConstantExpr_getCast ext (Inst_Opcode C) c (Inst_Type C))) st1))
           else Inr st1)))"

definition visitExtractValueInst :: "Externals \<Rightarrow> InstId \<Rightarrow> SCCPSolver \<Rightarrow> error + SCCPSolver" where
  "visitExtractValueInst ext I st =
     (let EVI = getInst (IR st) I
      in if isStructTy (Inst_Type EVI) then markAnythingOverdefined ext (Inst I) st
         else if length (Indices EVI) \<noteq> 1 then markOverdefined (Inst I) st
         else
           bindE (getOperand EVI 0) (\<lambda>AggVal.
             if isStructTy (typeOf st AggVal) then
               bindE (getStructValueState_val ext AggVal (Indices EVI ! 0) st) (\<lambda>(EltVal, st1).
               bindE (getValueState (Inst I) st1) (\<lambda>st2.
                 mergeInValue_ref (ValueStateRef (Inst I)) (Inst I) EltVal st2))
             else markOverdefined (Inst I) st))"

definition visitInsertValueInst :: "Externals \<Rightarrow> InstId \<Rightarrow> SCCPSolver \<Rightarrow> error + SCCPSolver" where
  "visitInsertValueInst ext I st =
     (let IVI = getInst (IR st) I
      in if \<not> isStructTy (Inst_Type IVI) then markOverdefined (Inst I) st
         else if length (Indices IVI) \<noteq> 1 then markAnythingOverdefined ext (Inst I) st
         else
           bindE (getOperand IVI 0) (\<lambda>Aggr.
             let Idx = Indices IVI ! 0
             in foldE (\<lambda>i s.
                  if i \<noteq> Idx then
                    bindE (getStructValueState_val ext Aggr i s) (\<lambda>(EltVal, s1).
                    bindE (getStructValueState ext (Inst I) i s1) (\<lambda>s2.
                      mergeInValue_ref (StructValueStateRef (Inst I) i) (Inst I) EltVal s2))
                  else
                    bindE (getOperand IVI 1) (\<lambda>Val.
                      if isStructTy (typeOf s Val) then
                        bindE (getStructValueState ext (Inst I) i s) (\<lambda>s1.
                          Inr (markOverdefined_ref (StructValueStateRef (Inst I) i) (Inst I) s1))
                      else
                        bindE (getValueState_val Val s) (\<lambda>(InVal, s1).
                        bindE (getStructValueState ext (Inst I) i s1) (\<lambda>s2.
                          mergeInValue_ref (StructValueStateRef (Inst I) i) (Inst I) InVal s2))))
                  [0 ..< getNumElements (Inst_Type IVI)] st))"

definition visitSelectInst :: "Externals \<Rightarrow> InstId \<Rightarrow> SCCPSolver \<Rightarrow> error + SCCPSolver" where
  "visitSelectInst ext I st =
     (let S = getInst (IR st) I
      in if isStructTy (Inst_Type S) then markAnythingOverdefined ext (Inst I) st
         else
           bindE (getOperand S 0) (\<lambda>Cond.
           bindE (getValueState_val Cond st) (\<lambda>(CondValue, st1).
             if isUndefined CondValue then Inr st1
             else
               bindE (getConstantInt CondValue) (\<lambda>CondCB.
                 case CondCB of
                   Some cb \<Rightarrow>
                     bindE (getOperand S (if isZero cb then 2 else 1)) (\<lambda>OpVal.
                     bindE (getValueState_val OpVal st1) (\<lambda>(lv, st2).
                       mergeInValue (Inst I) lv st2))
                 | None \<Rightarrow>
                     bindE (getOperand S 1) (\<lambda>TV.
                     bindE (getValueState_val TV st1) (\<lambda>(TVal, st2).
                     bindE (getOperand S 2) (\<lambda>FV.
                     bindE (getValueState_val FV st2) (\<lambda>(FVal, st3).
                       if isConstant TVal \<and> isConstant FVal \<and> getConstant TVal = getConstant FVal
                       then bindE (getConstant FVal) (\<lambda>c. markConstant (Inst I) c st3)
                       else if isUndefined TVal then mergeInValue (Inst I) FVal st3
                       else if isUndefined FVal then mergeInValue (Inst I) TVal st3
                       else markOverdefined (Inst I) st3))))))))"

text \<open>
  The walk of \<open>visitBinaryOperator\<close> and \<open>visitCmpInst\<close> over the incoming values of two
  PHI nodes of one block, folding each pair with \<open>eval2\<close> into the local \<open>Result\<close>; the
  two visitors run the same loop and differ in the folding function.
\<close>

fun foldOverPHIs ::
  "(Constant \<Rightarrow> Constant \<Rightarrow> Constant) \<Rightarrow> Instruction \<Rightarrow> Instruction \<Rightarrow> nat list \<Rightarrow> LatticeVal \<Rightarrow>
   SCCPSolver \<Rightarrow> error + LatticeVal \<times> SCCPSolver"
where
  "foldOverPHIs eval2 PN1 PN2 [] Result st = Inr (Result, st)"
| "foldOverPHIs eval2 PN1 PN2 (i # is) Result st =
     bindE (getIncomingValue PN1 i) (\<lambda>V1.
     bindE (getValueState_val V1 st) (\<lambda>(In1, st1).
     bindE (getIncomingBlock PN1 i) (\<lambda>InBlock.
     bindE (getIncomingValueForBlock PN2 InBlock) (\<lambda>V2.
     bindE (getValueState_val V2 st1) (\<lambda>(In2, st2).
       if isOverdefined In1 \<or> isOverdefined In2
       then Inr (snd (LatticeVal_markOverdefined Result), st2)
       else if isConstant In1 \<and> isConstant In2 then
         bindE (getConstant In1) (\<lambda>p1. bindE (nonnull p1) (\<lambda>c1.
         bindE (getConstant In2) (\<lambda>p2. bindE (nonnull p2) (\<lambda>c2.
           let V = eval2 c1 c2
           in if isUndefined Result then
                bindE (LatticeVal_markConstant (Some V) Result) (\<lambda>(changed, R).
                  foldOverPHIs eval2 PN1 PN2 is R st2)
              else if isConstant Result \<and> getConstant Result \<noteq> Inr (Some V)
              then Inr (snd (LatticeVal_markOverdefined Result), st2)
              else foldOverPHIs eval2 PN1 PN2 is Result st2))))
       else foldOverPHIs eval2 PN1 PN2 is Result st2)))))"

definition RemoveFromOverdefinedPHIs :: "InstId \<Rightarrow> InstId \<Rightarrow> SCCPSolver \<Rightarrow> SCCPSolver" where
  "RemoveFromOverdefinedPHIs I PN st =
     (if UsersOfOverdefinedPHIs st = [] then st
      else st\<lparr>UsersOfOverdefinedPHIs := filter (\<lambda>e. e \<noteq> (PN, I)) (UsersOfOverdefinedPHIs st)\<rparr>)"

definition InsertInOverdefinedPHIs :: "InstId \<Rightarrow> InstId \<Rightarrow> SCCPSolver \<Rightarrow> SCCPSolver" where
  "InsertInOverdefinedPHIs I PN st =
     (if (PN, I) \<in> set (UsersOfOverdefinedPHIs st) then st
      else st\<lparr>UsersOfOverdefinedPHIs := UsersOfOverdefinedPHIs st @ [(PN, I)]\<rparr>)"

definition dyn_cast_PHINode :: "SCCPSolver \<Rightarrow> Value \<Rightarrow> InstId option" where
  "dyn_cast_PHINode st V =
     (case V of Inst i \<Rightarrow> if Inst_Opcode (getInst (IR st) i) = PHI then Some i else None
              | _ \<Rightarrow> None)"

text \<open>
  The AND/OR short cut of \<open>visitBinaryOperator\<close>: \<open>Some\<close> of the final state when the
  visitor returns from inside it, \<open>None\<close> when control falls through to the PHI check.
\<close>

definition visitBinaryOperator_AndOr ::
  "Externals \<Rightarrow> InstId \<Rightarrow> Instruction \<Rightarrow> LatticeVal \<Rightarrow> LatticeVal \<Rightarrow> SCCPSolver \<Rightarrow>
   error + SCCPSolver option" where
  "visitBinaryOperator_AndOr ext I B V1State V2State st =
     (let IV = ValueStateRef (Inst I)
      in if Inst_Opcode B = And \<or> Inst_Opcode B = Or then
           (case (if \<not> isOverdefined V1State then Some V1State
                  else if \<not> isOverdefined V2State then Some V2State
                  else None) of
              None \<Rightarrow> Inr None
            | Some NonOverdefVal \<Rightarrow>
                if isUndefined NonOverdefVal then
                  (if Inst_Opcode B = And then
                     bindE (markConstant_ref IV (Inst I)
                              (Some (Constant_getNullValue ext (Inst_Type B))) st) (\<lambda>s. Inr (Some s))
                   else if isVectorTy (Inst_Type B) then
                     bindE (markConstant_ref IV (Inst I)
                              (Some (Constant_getAllOnesValue ext (Inst_Type B))) st) (\<lambda>s. Inr (Some s))
                   else
                     bindE (markConstant_ref IV (Inst I)
                              (Some (Constant_getAllOnesValue ext (Inst_Type B))) st) (\<lambda>s. Inr (Some s)))
                else if Inst_Opcode B = And then
                  bindE (getConstant NonOverdefVal) (\<lambda>p. bindE (nonnull p) (\<lambda>c.
                    if isNullValue ext c
                    then bindE (markConstant_ref IV (Inst I) p st) (\<lambda>s. Inr (Some s))
                    else Inr None))
                else
                  bindE (getConstantInt NonOverdefVal) (\<lambda>CI.
                    case CI of
                      Some ci \<Rightarrow>
                        if isAllOnesValue ci then
                          bindE (getConstant NonOverdefVal) (\<lambda>p.
                          bindE (markConstant_ref IV (Inst I) p st) (\<lambda>s. Inr (Some s)))
                        else Inr None
                    | None \<Rightarrow> Inr None))
         else Inr None)"

definition visitBinaryOperator :: "Externals \<Rightarrow> InstId \<Rightarrow> SCCPSolver \<Rightarrow> error + SCCPSolver" where
  "visitBinaryOperator ext I st =
     (let B = getInst (IR st) I; IV = ValueStateRef (Inst I)
      in bindE (getOperand B 0) (\<lambda>Op0.
         bindE (getValueState_val Op0 st) (\<lambda>(V1State, st1).
         bindE (getOperand B 1) (\<lambda>Op1.
         bindE (getValueState_val Op1 st1) (\<lambda>(V2State, st2).
           let st3 = ValueState_index (Inst I) st2
           in if isOverdefined (deref st3 IV) then Inr st3
              else if isConstant V1State \<and> isConstant V2State then
                bindE (getConstant V1State) (\<lambda>p1. bindE (nonnull p1) (\<lambda>c1.
                bindE (getConstant V2State) (\<lambda>p2. bindE (nonnull p2) (\<lambda>c2.
                  markConstant_ref IV (Inst I)
                    (Some (ConstantExpr_get ext (Inst_Opcode B) c1 c2)) st3))))
              else if \<not> isOverdefined V1State \<and> \<not> isOverdefined V2State then Inr st3
              else
                bindE (visitBinaryOperator_AndOr ext I B V1State V2State st3) (\<lambda>r.
                  case r of
                    Some s \<Rightarrow> Inr s
                  | None \<Rightarrow>
                     (case (dyn_cast_PHINode st3 Op0, dyn_cast_PHINode st3 Op1) of
                        (Some PN1, Some PN2) \<Rightarrow>
                          if Inst_Parent (getInst (IR st3) PN1) = Inst_Parent (getInst (IR st3) PN2)
                          then
                            bindE (foldOverPHIs (ConstantExpr_get ext (Inst_Opcode B))
                                     (getInst (IR st3) PN1) (getInst (IR st3) PN2)
                                     [0 ..< getNumIncomingValues (getInst (IR st3) PN1)]
                                     LatticeVal_init st3) (\<lambda>(Result, st4).
                              if isConstant Result then
                                bindE (getConstant Result) (\<lambda>c.
                                bindE (markConstant_ref IV (Inst I) c st4) (\<lambda>st5.
                                  Inr (InsertInOverdefinedPHIs I PN2 (InsertInOverdefinedPHIs I PN1 st5))))
                              else if isUndefined Result then Inr st4
                              else
                                markOverdefined (Inst I)
                                  (RemoveFromOverdefinedPHIs I PN2 (RemoveFromOverdefinedPHIs I PN1 st4)))
                          else markOverdefined (Inst I) st3
                      | _ \<Rightarrow> markOverdefined (Inst I) st3)))))))"

definition visitCmpInst :: "Externals \<Rightarrow> InstId \<Rightarrow> SCCPSolver \<Rightarrow> error + SCCPSolver" where
  "visitCmpInst ext I st =
     (let C = getInst (IR st) I; IV = ValueStateRef (Inst I)
      in bindE (getOperand C 0) (\<lambda>Op0.
         bindE (getValueState_val Op0 st) (\<lambda>(V1State, st1).
         bindE (getOperand C 1) (\<lambda>Op1.
         bindE (getValueState_val Op1 st1) (\<lambda>(V2State, st2).
           let st3 = ValueState_index (Inst I) st2
           in if isOverdefined (deref st3 IV) then Inr st3
              else if isConstant V1State \<and> isConstant V2State then
                bindE (getConstant V1State) (\<lambda>p1. bindE (nonnull p1) (\<lambda>c1.
                bindE (getConstant V2State) (\<lambda>p2. bindE (nonnull p2) (\<lambda>c2.
                  markConstant_ref IV (Inst I)
                    (Some (ConstantExpr_getCompare ext (Predicate C) c1 c2)) st3))))
              else if \<not> isOverdefined V1State \<and> \<not> isOverdefined V2State then Inr st3
              else
                (case (dyn_cast_PHINode st3 Op0, dyn_cast_PHINode st3 Op1) of
                   (Some PN1, Some PN2) \<Rightarrow>
                     if Inst_Parent (getInst (IR st3) PN1) = Inst_Parent (getInst (IR st3) PN2)
                     then
                       bindE (foldOverPHIs (ConstantExpr_getCompare ext (Predicate C))
                                (getInst (IR st3) PN1) (getInst (IR st3) PN2)
                                [0 ..< getNumIncomingValues (getInst (IR st3) PN1)]
                                LatticeVal_init st3) (\<lambda>(Result, st4).
                         if isConstant Result then
                           bindE (getConstant Result) (\<lambda>c.
                           bindE (markConstant (Inst I) c st4) (\<lambda>st5.
                             Inr (InsertInOverdefinedPHIs I PN2 (InsertInOverdefinedPHIs I PN1 st5))))
                         else if isUndefined Result then Inr st4
                         else
                           markOverdefined (Inst I)
                             (RemoveFromOverdefinedPHIs I PN2 (RemoveFromOverdefinedPHIs I PN1 st4)))
                     else markOverdefined (Inst I) st3
                 | _ \<Rightarrow> markOverdefined (Inst I) st3))))))"

text \<open>
  The loop of \<open>visitGetElementPtrInst\<close> and of the foldable-call case over the operands:
  \<open>None\<close> when the visitor has returned from inside the loop (an operand is undefined,
  or it is overdefined and so is the result now), \<open>Some\<close> of the constants otherwise.
\<close>

fun collectConstants ::
  "InstId \<Rightarrow> Value list \<Rightarrow> Constant list \<Rightarrow> SCCPSolver \<Rightarrow> error + Constant list option \<times> SCCPSolver"
where
  "collectConstants I [] Ops st = Inr (Some Ops, st)"
| "collectConstants I (V # Vs) Ops st =
     bindE (getValueState_val V st) (\<lambda>(State, st1).
       if isUndefined State then Inr (None, st1)
       else if isOverdefined State then
         bindE (markOverdefined (Inst I) st1) (\<lambda>st2. Inr (None, st2))
       else if \<not> isConstant State then Inl Assert_UnknownState
       else
         bindE (getConstant State) (\<lambda>p. bindE (nonnull p) (\<lambda>c.
           collectConstants I Vs (Ops @ [c]) st1)))"

definition visitGetElementPtrInst :: "Externals \<Rightarrow> InstId \<Rightarrow> SCCPSolver \<Rightarrow> error + SCCPSolver" where
  "visitGetElementPtrInst ext I st =
     (let st0 = ValueState_index (Inst I) st
      in if isOverdefined (deref st0 (ValueStateRef (Inst I))) then Inr st0
         else
           bindE (collectConstants I (Operands (getInst (IR st0) I)) [] st0) (\<lambda>(r, st1).
             case r of
               None \<Rightarrow> Inr st1
             | Some [] \<Rightarrow> Inl Fault_OutOfRange
             | Some (Ptr # Idxs) \<Rightarrow>
                 markConstant (Inst I) (Some (ConstantExpr_getGetElementPtr ext Ptr Idxs)) st1))"

definition visitStoreInst :: "Externals \<Rightarrow> InstId \<Rightarrow> SCCPSolver \<Rightarrow> error + SCCPSolver" where
  "visitStoreInst ext I st =
     (let SI = getInst (IR st) I
      in bindE (getOperand SI 0) (\<lambda>Val.
           if isStructTy (typeOf st Val) then Inr st
           else if TrackedGlobals st = Map.empty then Inr st
           else
             bindE (getOperand SI 1) (\<lambda>Ptr.
               case Ptr of
                 Const (GlobalVariable GV t) \<Rightarrow>
                   (case TrackedGlobals st GV of
                      None \<Rightarrow> Inr st
                    | Some lv \<Rightarrow>
                        if isOverdefined lv then Inr st
                        else
                          bindE (getValueState_val Val st) (\<lambda>(StoredVal, st1).
                          bindE (mergeInValue_ref (TrackedGlobalsRef GV) Ptr StoredVal st1) (\<lambda>st2.
                            if isOverdefined (deref st2 (TrackedGlobalsRef GV))
                            then Inr (st2\<lparr>TrackedGlobals := (TrackedGlobals st2)(GV := None)\<rparr>)
                            else Inr st2)))
               | _ \<Rightarrow> Inr st)))"

fun isConstantPointerNull :: "Constant \<Rightarrow> bool" where
  "isConstantPointerNull (ConstantPointerNull _) = True"
| "isConstantPointerNull _ = False"

definition visitLoadInst_fold :: "Externals \<Rightarrow> InstId \<Rightarrow> Constant \<Rightarrow> SCCPSolver \<Rightarrow> error + SCCPSolver" where
  "visitLoadInst_fold ext I Ptr st =
     (case ConstantFoldLoadFromConstPtr ext Ptr of
        Some C \<Rightarrow> markConstant_ref (ValueStateRef (Inst I)) (Inst I) (Some C) st
      | None \<Rightarrow> Inr (markOverdefined_ref (ValueStateRef (Inst I)) (Inst I) st))"

definition visitLoadInst :: "Externals \<Rightarrow> InstId \<Rightarrow> SCCPSolver \<Rightarrow> error + SCCPSolver" where
  "visitLoadInst ext I st =
     (let LI = getInst (IR st) I; IV = ValueStateRef (Inst I)
      in if isStructTy (Inst_Type LI) then markAnythingOverdefined ext (Inst I) st
         else
           bindE (getOperand LI 0) (\<lambda>PtrOp.
           bindE (getValueState_val PtrOp st) (\<lambda>(PtrVal, st1).
             if isUndefined PtrVal then Inr st1
             else
               (let st2 = ValueState_index (Inst I) st1
                in if isOverdefined (deref st2 IV) then Inr st2
                   else if \<not> isConstant PtrVal \<or> isVolatile LI
                   then Inr (markOverdefined_ref IV (Inst I) st2)
                   else
                     bindE (getConstant PtrVal) (\<lambda>p. bindE (nonnull p) (\<lambda>Ptr.
                       if isConstantPointerNull Ptr \<and> PointerAddressSpace LI = 0 then
                         markConstant_ref IV (Inst I)
                           (Some (Constant_getNullValue ext (Inst_Type LI))) st2
                       else
                         (case Ptr of
                            GlobalVariable GV t \<Rightarrow>
                              if TrackedGlobals st2 \<noteq> Map.empty then
                                (case TrackedGlobals st2 GV of
                                   Some lv \<Rightarrow> mergeInValue_ref IV (Inst I) lv st2
                                 | None \<Rightarrow> visitLoadInst_fold ext I Ptr st2)
                              else visitLoadInst_fold ext I Ptr st2
                          | _ \<Rightarrow> visitLoadInst_fold ext I Ptr st2)))))))"

text \<open>
  A call site: the callee is the last value operand, the arguments are those before it.
  A function is a declaration when it has no blocks.
\<close>

definition getCalledFunction :: "Instruction \<Rightarrow> FuncId option" where
  "getCalledFunction CS =
     (case Operands CS of
        [] \<Rightarrow> None
      | _ \<Rightarrow> (case last (Operands CS) of Const (Function F t) \<Rightarrow> Some F | _ \<Rightarrow> None))"

definition CallSite_args :: "Instruction \<Rightarrow> Value list" where
  "CallSite_args CS = butlast (Operands CS)"

definition isDeclaration :: "SCCPSolver \<Rightarrow> FuncId \<Rightarrow> bool" where
  "isDeclaration st F = (Blocks (getFunction (IR st) F) = [])"

text \<open>The code at the label \<^verbatim>\<open>CallOverdefined\<close> of \<open>visitCallSite\<close>.\<close>

definition CallOverdefined ::
  "Externals \<Rightarrow> InstId \<Rightarrow> FuncId option \<Rightarrow> SCCPSolver \<Rightarrow> error + SCCPSolver" where
  "CallOverdefined ext I F st =
     (let CS = getInst (IR st) I
      in if isVoidTy (Inst_Type CS) then Inr st
         else
           (case F of
              None \<Rightarrow> markAnythingOverdefined ext (Inst I) st
            | Some f \<Rightarrow>
                if isDeclaration st f \<and> \<not> isStructTy (Inst_Type CS) \<and> canConstantFoldCallTo ext f
                then
                  bindE (collectConstants I (CallSite_args CS) [] st) (\<lambda>(r, st1).
                    case r of
                      None \<Rightarrow> Inr st1
                    | Some Ops \<Rightarrow>
                       (case ConstantFoldCall ext f Ops of
                          Some C \<Rightarrow> markConstant (Inst I) (Some C) st1
                        | None \<Rightarrow> markAnythingOverdefined ext (Inst I) st1))
                else markAnythingOverdefined ext (Inst I) st))"

text \<open>
  The loop of \<open>visitCallSite\<close> over the formal arguments \<open>AI\<close> of the callee, numbered
  from \<open>k\<close>, with the iterator \<open>CAI\<close> over the actual arguments as the list that is left.
\<close>

fun propagateArguments ::
  "Externals \<Rightarrow> FuncId \<Rightarrow> nat \<Rightarrow> (Type \<times> bool) list \<Rightarrow> Value list \<Rightarrow> SCCPSolver \<Rightarrow> error + SCCPSolver"
where
  "propagateArguments ext F k [] CAI st = Inr st"
| "propagateArguments ext F k ((t, byval) # AIs) CAI st =
     (let AI = Argument F k t
      in if byval \<and> \<not> onlyReadsMemory (getFunction (IR st) F) then
           bindE (markOverdefined AI st) (propagateArguments ext F (Suc k) AIs (tl CAI))
         else
           (case CAI of
              [] \<Rightarrow> Inl Fault_OutOfRange
            | CA # rest \<Rightarrow>
                if isStructTy t then
                  bindE (foldE (\<lambda>i s.
                           bindE (getStructValueState_val ext CA i s) (\<lambda>(CallArg, s1).
                           bindE (getStructValueState ext AI i s1) (\<lambda>s2.
                             mergeInValue_ref (StructValueStateRef AI i) AI CallArg s2)))
                         [0 ..< getNumElements t] st)
                    (propagateArguments ext F (Suc k) AIs rest)
                else
                  bindE (getValueState_val CA st) (\<lambda>(lv, st1).
                  bindE (mergeInValue AI lv st1)
                    (propagateArguments ext F (Suc k) AIs rest))))"

definition visitCallSite :: "Externals \<Rightarrow> InstId \<Rightarrow> SCCPSolver \<Rightarrow> error + SCCPSolver" where
  "visitCallSite ext I st =
     (let CS = getInst (IR st) I
      in case getCalledFunction CS of
           None \<Rightarrow> CallOverdefined ext I None st
         | Some F \<Rightarrow>
             if isDeclaration st F then CallOverdefined ext I (Some F) st
             else
               bindE
                 (if TrackingIncomingArguments st \<noteq> {} \<and> F \<in> TrackingIncomingArguments st then
                    (case Blocks (getFunction (IR st) F) of
                       [] \<Rightarrow> Inl Fault_NullPointer
                     | Entry # _ \<Rightarrow>
                         propagateArguments ext F 0 (Args (getFunction (IR st) F)) (CallSite_args CS)
                           (snd (MarkBlockExecutable Entry st)))
                  else Inr st)
                 (\<lambda>st1.
                    if isStructTy (ReturnType (getFunction (IR st1) F)) then
                      (if F \<notin> MRVFunctionsTracked st1 then CallOverdefined ext I (Some F) st1
                       else
                         foldE (\<lambda>i s.
                                  bindE (getStructValueState ext (Inst I) i s) (\<lambda>s1.
                                    let s2 = TrackedMultipleRetVals_index (F, i) s1
                                    in mergeInValue_ref (StructValueStateRef (Inst I) i) (Inst I)
                                         (deref s2 (TrackedMultipleRetValsRef F i)) s2))
                           [0 ..< getNumElements (ReturnType (getFunction (IR st1) F))] st1)
                    else
                      (case TrackedRetVals st1 F of
                         None \<Rightarrow> CallOverdefined ext I (Some F) st1
                       | Some lv \<Rightarrow> mergeInValue (Inst I) lv st1)))"

definition visitInvokeInst :: "Visitor \<Rightarrow> Externals \<Rightarrow> InstId \<Rightarrow> SCCPSolver \<Rightarrow> error + SCCPSolver" where
  "visitInvokeInst visit ext II st =
     bindE (visitCallSite ext II st) (visitTerminatorInst visit ext II)"

text \<open>
  Modelled from the spec: the dispatch of \<^verbatim>\<open>InstVisitor\<close> (\<^verbatim>\<open>llvm/Support/InstVisitor.h\<close> is
  not among the sources), one visitor method per opcode with a default-case fallback: an
  opcode goes to the method the solver defines for its instruction class, and to
  \<open>visitInstruction\<close> when it defines none.
\<close>

definition visit_dispatch :: "Visitor \<Rightarrow> Externals \<Rightarrow> InstId \<Rightarrow> SCCPSolver \<Rightarrow> error + SCCPSolver" where
  "visit_dispatch visit ext I st =
     (let opc = Inst_Opcode (getInst (IR st) I)
      in if opc = PHI then visitPHINode visit ext I st
         else if opc = Ret then visitReturnInst ext I st
         else if opc = Br \<or> opc = Switch \<or> opc = IndirectBr then visitTerminatorInst visit ext I st
         else if opc = Invoke then visitInvokeInst visit ext I st
         else if opc = Unwind \<or> opc = Unreachable then Inr st
         else if isCastOp opc then visitCastInst ext I st
         else if opc = Select then visitSelectInst ext I st
         else if isBinaryOp opc then visitBinaryOperator ext I st
         else if opc = ICmp \<or> opc = FCmp then visitCmpInst ext I st
         else if opc = ExtractElement \<or> opc = InsertElement \<or> opc = ShuffleVector
           then markOverdefined (Inst I) st
         else if opc = ExtractValue then visitExtractValueInst ext I st
         else if opc = InsertValue then visitInsertValueInst ext I st
         else if opc = Store then visitStoreInst ext I st
         else if opc = Load then visitLoadInst ext I st
         else if opc = GetElementPtr then visitGetElementPtrInst ext I st
         else if opc = Call then visitCallSite ext I st
         else if opc = Alloca then markOverdefined (Inst I) st
         else if opc = VAArg then markAnythingOverdefined ext (Inst I) st
         else markAnythingOverdefined ext (Inst I) st)"

text \<open>
  \<open>visit\<close> with fuel for the depth of the calls from a visitor back into \<open>visit\<close>: a PHI
  node that is its own user in \<open>UsersOfOverdefinedPHIs\<close> would recurse for ever.
\<close>

primrec visit :: "nat \<Rightarrow> Externals \<Rightarrow> InstId \<Rightarrow> SCCPSolver \<Rightarrow> error + SCCPSolver" where
  "visit 0 ext I st = Inl OutOfFuel"
| "visit (Suc n) ext I st = visit_dispatch (visit n ext) ext I st"

definition visitBasicBlock :: "nat \<Rightarrow> Externals \<Rightarrow> BlockId \<Rightarrow> SCCPSolver \<Rightarrow> error + SCCPSolver" where
  "visitBasicBlock n ext BB st = foldE (visit n ext) (Insts (getBlock (IR st) BB)) st"

subsection \<open>Solve\<close>

definition OperandChangedState :: "nat \<Rightarrow> Externals \<Rightarrow> InstId \<Rightarrow> SCCPSolver \<Rightarrow> error + SCCPSolver" where
  "OperandChangedState n ext I st =
     (if Inst_Parent (getInst (IR st) I) \<in> BBExecutable st then visit n ext I st else Inr st)"

text \<open>
  The walk over the use list of a value; only the users that are instructions are
  notified.  \<open>uses\<close> is read for instructions, arguments, functions and global variables,
  the values the work lists hold.
\<close>

definition visitUsers :: "nat \<Rightarrow> Externals \<Rightarrow> Value \<Rightarrow> SCCPSolver \<Rightarrow> error + SCCPSolver" where
  "visitUsers n ext V st =
     foldE (\<lambda>U s. case U of Inst u \<Rightarrow> OperandChangedState n ext u s | _ \<Rightarrow> Inr s)
       (uses (IR st) V) st"

text \<open>
  The three inner loops of \<open>Solve\<close> and its outer loop.  Each takes fuel for its
  iterations, and hands \<open>n\<close> to \<open>visit\<close>; a loop that has not emptied its work list when
  the fuel is spent answers \<open>OutOfFuel\<close>.
\<close>

primrec Solve_OverdefinedInstWorkList ::
  "nat \<Rightarrow> nat \<Rightarrow> Externals \<Rightarrow> SCCPSolver \<Rightarrow> error + SCCPSolver" where
  "Solve_OverdefinedInstWorkList 0 n ext st =
     (if OverdefinedInstWorkList st = [] then Inr st else Inl OutOfFuel)"
| "Solve_OverdefinedInstWorkList (Suc k) n ext st =
     (if OverdefinedInstWorkList st = [] then Inr st
      else
        (let I = last (OverdefinedInstWorkList st);
             st1 = st\<lparr>OverdefinedInstWorkList := butlast (OverdefinedInstWorkList st)\<rparr>
         in bindE (visitUsers n ext I st1) (Solve_OverdefinedInstWorkList k n ext)))"

primrec Solve_InstWorkList :: "nat \<Rightarrow> nat \<Rightarrow> Externals \<Rightarrow> SCCPSolver \<Rightarrow> error + SCCPSolver" where
  "Solve_InstWorkList 0 n ext st = (if InstWorkList st = [] then Inr st else Inl OutOfFuel)"
| "Solve_InstWorkList (Suc k) n ext st =
     (if InstWorkList st = [] then Inr st
      else
        (let I = last (InstWorkList st);
             st1 = st\<lparr>InstWorkList := butlast (InstWorkList st)\<rparr>
         in if isStructTy (typeOf st1 I) then
              bindE (visitUsers n ext I st1) (Solve_InstWorkList k n ext)
            else
              bindE (getValueState_val I st1) (\<lambda>(lv, st2).
                if \<not> isOverdefined lv
                then bindE (visitUsers n ext I st2) (Solve_InstWorkList k n ext)
                else Solve_InstWorkList k n ext st2)))"

primrec Solve_BBWorkList :: "nat \<Rightarrow> nat \<Rightarrow> Externals \<Rightarrow> SCCPSolver \<Rightarrow> error + SCCPSolver" where
  "Solve_BBWorkList 0 n ext st = (if BBWorkList st = [] then Inr st else Inl OutOfFuel)"
| "Solve_BBWorkList (Suc k) n ext st =
     (if BBWorkList st = [] then Inr st
      else
        (let BB = last (BBWorkList st);
             st1 = st\<lparr>BBWorkList := butlast (BBWorkList st)\<rparr>
         in bindE (visitBasicBlock n ext BB st1) (Solve_BBWorkList k n ext)))"

definition workListsEmpty :: "SCCPSolver \<Rightarrow> bool" where
  "workListsEmpty st =
     (BBWorkList st = [] \<and> InstWorkList st = [] \<and> OverdefinedInstWorkList st = [])"

primrec Solve_loop :: "nat \<Rightarrow> nat \<Rightarrow> Externals \<Rightarrow> SCCPSolver \<Rightarrow> error + SCCPSolver" where
  "Solve_loop 0 n ext st = (if workListsEmpty st then Inr st else Inl OutOfFuel)"
| "Solve_loop (Suc k) n ext st =
     (if workListsEmpty st then Inr st
      else
        bindE (Solve_OverdefinedInstWorkList n n ext st) (\<lambda>st1.
        bindE (Solve_InstWorkList n n ext st1) (\<lambda>st2.
        bindE (Solve_BBWorkList n n ext st2) (Solve_loop k n ext))))"

definition Solve :: "nat \<Rightarrow> Externals \<Rightarrow> SCCPSolver \<Rightarrow> error + SCCPSolver" where
  "Solve n ext st = Solve_loop n n ext st"

subsection \<open>ResolvedUndefsIn\<close>

text \<open>
  \<^verbatim>\<open>setCondition\<close> of a branch or switch writes the first operand of the terminator in
  the IR.
\<close>

definition setCondition :: "InstId \<Rightarrow> Value \<Rightarrow> Module \<Rightarrow> Module" where
  "setCondition TI V M =
     M\<lparr>getInst := (getInst M)(TI := (getInst M TI)\<lparr>Operands := (Operands (getInst M TI))[0 := V]\<rparr>)\<rparr>"

text \<open>
  The \<^verbatim>\<open>switch\<close> of \<open>ResolvedUndefsIn\<close> over the opcode of an instruction whose result is
  undefined.  The flag of the result says that \<open>ResolvedUndefsIn\<close> returns \<open>true\<close> here;
  \<open>False\<close> is the \<^verbatim>\<open>break\<close> that leaves the instruction undefined.
\<close>

definition ResolvedUndefsIn_opcode ::
  "Externals \<Rightarrow> InstId \<Rightarrow> LatticeVal \<Rightarrow> LatticeVal \<Rightarrow> SCCPSolver \<Rightarrow> error + bool \<times> SCCPSolver" where
  "ResolvedUndefsIn_opcode ext I Op0LV Op1LV st =
     (let J = getInst (IR st) I; ITy = Inst_Type J; opc = Inst_Opcode J;
          forceNull = bindE (markForcedConstant (Inst I) (Some (Constant_getNullValue ext ITy)) st)
                        (\<lambda>s. Inr (True, s))
      in if opc = ZExt \<or> opc = SIToFP \<or> opc = UIToFP then forceNull
         else if opc = Mul \<or> opc = And then forceNull
         else if opc = Or then
           bindE (markForcedConstant (Inst I) (Some (Constant_getAllOnesValue ext ITy)) st)
             (\<lambda>s. Inr (True, s))
         else if opc = SDiv \<or> opc = UDiv \<or> opc = SRem \<or> opc = URem then
           (if isUndefined Op1LV then Inr (False, st) else forceNull)
         else if opc = AShr then
           (if isUndefined Op0LV then Inr (False, st)
            else if isConstant Op0LV then
              bindE (getConstant Op0LV) (\<lambda>c.
              bindE (markForcedConstant (Inst I) c st) (\<lambda>s. Inr (True, s)))
            else bindE (markOverdefined (Inst I) st) (\<lambda>s. Inr (True, s)))
         else if opc = LShr \<or> opc = Shl then
           (if isUndefined Op0LV then Inr (False, st) else forceNull)
         else if opc = Select then
           bindE
             (if isUndefined Op0LV then
                (if \<not> isConstant Op1LV then
                   bindE (getOperand J 2) (\<lambda>V. bindE (getValueState_val V st) (\<lambda>(lv, s). Inr (Some lv, s)))
                 else Inr (Some Op1LV, st))
              else if isUndefined Op1LV then
                bindE (getOperand J 2) (\<lambda>V. bindE (getValueState_val V st) (\<lambda>(lv, s).
                  if isUndefined lv then Inr (None, s) else Inr (Some lv, s)))
              else Inr (Some Op1LV, st))
             (\<lambda>(r, st1).
                case r of
                  None \<Rightarrow> Inr (False, st1)
                | Some lv \<Rightarrow>
                    if isConstant lv then
                      bindE (getConstant lv) (\<lambda>c.
                      bindE (markForcedConstant (Inst I) c st1) (\<lambda>s. Inr (True, s)))
                    else bindE (markOverdefined (Inst I) st1) (\<lambda>s. Inr (True, s)))
         else if opc = Call then bindE (markOverdefined (Inst I) st) (\<lambda>s. Inr (True, s))
         else Inr (False, st))"

text \<open>
  The body of the loop over the instructions of a block, for one instruction: \<open>True\<close>
  when \<open>ResolvedUndefsIn\<close> returns \<open>true\<close> from it, \<open>False\<close> when the loop goes on.
\<close>

definition ResolvedUndefsIn_inst ::
  "Externals \<Rightarrow> InstId \<Rightarrow> SCCPSolver \<Rightarrow> error + bool \<times> SCCPSolver" where
  "ResolvedUndefsIn_inst ext I st =
     (let J = getInst (IR st) I
      in if isVoidTy (Inst_Type J) then Inr (False, st)
         else if isStructTy (Inst_Type J) then
           (if Inst_Opcode J = Call \<or> Inst_Opcode J = Select then
              bindE (foldE (\<lambda>i s.
                       bindE (getStructValueState ext (Inst I) i s) (\<lambda>s1.
                         if isUndefined (deref s1 (StructValueStateRef (Inst I) i))
                         then Inr (markOverdefined_ref (StructValueStateRef (Inst I) i) (Inst I) s1)
                         else Inr s1))
                     [0 ..< getNumElements (Inst_Type J)] st)
                (\<lambda>s. Inr (False, s))
            else Inr (False, st))
         else
           bindE (getValueState (Inst I) st) (\<lambda>st1.
             if \<not> isUndefined (deref st1 (ValueStateRef (Inst I))) then Inr (False, st1)
             else
               bindE (getOperand J 0) (\<lambda>Op0.
                 if isStructTy (typeOf st1 Op0) then Inr (False, st1)
                 else
                   bindE (getValueState_val Op0 st1) (\<lambda>(Op0LV, st2).
                     if getNumOperands J = 2 then
                       bindE (getOperand J 1) (\<lambda>Op1.
                         if isStructTy (typeOf st2 Op1) then Inr (False, st2)
                         else
                           bindE (getValueState_val Op1 st2) (\<lambda>(Op1LV, st3).
                             if isUndefined Op0LV \<and> isUndefined Op1LV then Inr (False, st3)
                             else ResolvedUndefsIn_opcode ext I Op0LV Op1LV st3))
                     else ResolvedUndefsIn_opcode ext I Op0LV LatticeVal_init st2))))"

fun ResolvedUndefsIn_insts ::
  "Externals \<Rightarrow> InstId list \<Rightarrow> SCCPSolver \<Rightarrow> error + bool \<times> SCCPSolver" where
  "ResolvedUndefsIn_insts ext [] st = Inr (False, st)"
| "ResolvedUndefsIn_insts ext (I # Is) st =
     bindE (ResolvedUndefsIn_inst ext I st) (\<lambda>(ret, st1).
       if ret then Inr (True, st1) else ResolvedUndefsIn_insts ext Is st1)"

fun isUndefValueV :: "Value \<Rightarrow> bool" where
  "isUndefValueV (Const (UndefValue t)) = True"
| "isUndefValueV _ = False"

text \<open>The check of the terminator of a block for a branch or switch on an undefined value.\<close>

definition ResolvedUndefsIn_terminator ::
  "nat \<Rightarrow> Externals \<Rightarrow> BlockId \<Rightarrow> SCCPSolver \<Rightarrow> error + bool \<times> SCCPSolver" where
  "ResolvedUndefsIn_terminator n ext BB st =
     (case getTerminator (IR st) BB of
        None \<Rightarrow> Inl Fault_NullPointer
      | Some TI \<Rightarrow>
         (let T = getInst (IR st) TI
          in if Inst_Opcode T = Br then
               (if \<not> isConditional T then Inr (False, st)
                else
                  bindE (getCondition T) (\<lambda>Cond.
                  bindE (getValueState_val Cond st) (\<lambda>(lv, st1).
                    if \<not> isUndefined lv then Inr (False, st1)
                    else if isUndefValueV Cond then
                      (let st2 = st1\<lparr>IR := setCondition TI (Const ConstantInt_getFalse) (IR st1)\<rparr>
                       in bindE (getSuccessor (getInst (IR st2) TI) 1) (\<lambda>Dest.
                          bindE (markEdgeExecutable (visit n ext) ext BB Dest st2) (\<lambda>s.
                            Inr (True, s))))
                    else
                      bindE (markForcedConstant Cond (Some ConstantInt_getFalse) st1) (\<lambda>s.
                        Inr (True, s)))))
             else if Inst_Opcode T = Switch then
               (if getNumSuccessors T < 2 then Inr (False, st)
                else
                  bindE (getCondition T) (\<lambda>Cond.
                  bindE (getValueState_val Cond st) (\<lambda>(lv, st1).
                    if \<not> isUndefined lv then Inr (False, st1)
                    else if isUndefValueV Cond then
                      bindE (getCaseValue T 1) (\<lambda>C.
                        let st2 = st1\<lparr>IR := setCondition TI (Const C) (IR st1)\<rparr>
                        in bindE (getSuccessor (getInst (IR st2) TI) 1) (\<lambda>Dest.
                           bindE (markEdgeExecutable (visit n ext) ext BB Dest st2) (\<lambda>s.
                             Inr (True, s))))
                    else
                      bindE (getCaseValue T 1) (\<lambda>C.
                      bindE (markForcedConstant Cond (Some C) st1) (\<lambda>s. Inr (True, s))))))
             else Inr (False, st)))"

definition ResolvedUndefsIn_block ::
  "nat \<Rightarrow> Externals \<Rightarrow> BlockId \<Rightarrow> SCCPSolver \<Rightarrow> error + bool \<times> SCCPSolver" where
  "ResolvedUndefsIn_block n ext BB st =
     (if BB \<notin> BBExecutable st then Inr (False, st)
      else
        bindE (ResolvedUndefsIn_insts ext (Insts (getBlock (IR st) BB)) st) (\<lambda>(ret, st1).
          if ret then Inr (True, st1) else ResolvedUndefsIn_terminator n ext BB st1))"

fun ResolvedUndefsIn_blocks ::
  "nat \<Rightarrow> Externals \<Rightarrow> BlockId list \<Rightarrow> SCCPSolver \<Rightarrow> error + bool \<times> SCCPSolver" where
  "ResolvedUndefsIn_blocks n ext [] st = Inr (False, st)"
| "ResolvedUndefsIn_blocks n ext (BB # BBs) st =
     bindE (ResolvedUndefsIn_block n ext BB st) (\<lambda>(ret, st1).
       if ret then Inr (True, st1) else ResolvedUndefsIn_blocks n ext BBs st1)"

definition ResolvedUndefsIn :: "nat \<Rightarrow> Externals \<Rightarrow> FuncId \<Rightarrow> SCCPSolver \<Rightarrow> error + bool \<times> SCCPSolver" where
  "ResolvedUndefsIn n ext F st = ResolvedUndefsIn_blocks n ext (Blocks (getFunction (IR st) F)) st"

text \<open>The constructor: every container starts empty.\<close>

definition SCCPSolver_new :: "Module \<Rightarrow> SCCPSolver" where
  "SCCPSolver_new M =
     \<lparr>IR = M, BBExecutable = {}, ValueState = Map.empty, StructValueState = Map.empty,
      TrackedGlobals = Map.empty, TrackedRetVals = Map.empty, TrackedMultipleRetVals = Map.empty,
      MRVFunctionsTracked = {}, TrackingIncomingArguments = {}, OverdefinedInstWorkList = [],
      InstWorkList = [], BBWorkList = [], UsersOfOverdefinedPHIs = [], KnownFeasibleEdges = {}\<rparr>"

subsection \<open>Reading the state, and the fixtures of the examples\<close>

text \<open>
  \<open>seedOf V\<close> is the lattice value \<open>getValueState\<close> gives a scalar value on its first
  access, and \<open>peek st V\<close> the value it answers in \<open>st\<close>, whether or not the entry
  exists yet.
\<close>

definition seedOf :: "Value \<Rightarrow> LatticeVal" where
  "seedOf V =
     (case V of
        Const C \<Rightarrow> if isUndefValue C then LatticeVal_init
                   else \<lparr>Val_Pointer = Some C, Val_Int = constantLV\<rparr>
      | _ \<Rightarrow> LatticeVal_init)"

definition peek :: "SCCPSolver \<Rightarrow> Value \<Rightarrow> LatticeVal" where
  "peek st V = (case ValueState st V of Some lv \<Rightarrow> lv | None \<Rightarrow> seedOf V)"

text \<open>A constant folder for the examples; the theorems do not depend on it.\<close>

definition exampleExternals :: Externals where
  "exampleExternals =
     \<lparr>Constant_getNullValue = (\<lambda>t. case t of IntegerTy w \<Rightarrow> ConstantInt w 0
                                            | PointerTy u a \<Rightarrow> ConstantPointerNull t
                                            | _ \<Rightarrow> ConstantAggregateZero t),
      Constant_getAllOnesValue = (\<lambda>t. case t of IntegerTy w \<Rightarrow> ConstantInt w (2 ^ w - 1)
                                               | _ \<Rightarrow> OtherConstant 0 t),
      isNullValue = (\<lambda>c. case c of ConstantInt w v \<Rightarrow> v = 0
                                  | ConstantPointerNull t \<Rightarrow> True
                                  | ConstantAggregateZero t \<Rightarrow> True
                                  | _ \<Rightarrow> False),
      ConstantExpr_get = (\<lambda>opc a b. OtherConstant 1 (Constant_getType a)),
      ConstantExpr_getCast = (\<lambda>opc c t. OtherConstant 2 t),
      ConstantExpr_getCompare = (\<lambda>p a b. OtherConstant 3 (IntegerTy 1)),
      ConstantExpr_getGetElementPtr = (\<lambda>p idxs. OtherConstant 4 (Constant_getType p)),
      ConstantFoldLoadFromConstPtr = (\<lambda>p. None),
      canConstantFoldCallTo = (\<lambda>f. False),
      ConstantFoldCall = (\<lambda>f cs. None)\<rparr>"

definition noInstruction :: Instruction where
  "noInstruction =
     \<lparr>Inst_Opcode = Unreachable, Inst_Type = VoidTy, Operands = [], Inst_Parent = 0,
      IncomingBlocks = [], Predicate = 0, Indices = [], isVolatile = False,
      PointerAddressSpace = 0, Successors = [], CaseValues = []\<rparr>"

definition emptyModule :: Module where
  "emptyModule =
     \<lparr>getInst = (\<lambda>i. noInstruction),
      getBlock = (\<lambda>b. \<lparr>Insts = [], BB_Parent = 0\<rparr>),
      getFunction = (\<lambda>f. \<lparr>Blocks = [], Args = [], ReturnType = VoidTy, Function_Type = OtherTy 0,
                           onlyReadsMemory = False\<rparr>),
      uses = (\<lambda>v. [])\<rparr>"

text \<open>A solver over the empty module whose only entry is the scalar state of instruction 1.\<close>

definition cellState :: "LatticeVal \<Rightarrow> SCCPSolver" where
  "cellState lv = (SCCPSolver_new emptyModule)\<lparr>ValueState := [Inst 1 \<mapsto> lv]\<rparr>"

definition constantOf :: "Constant \<Rightarrow> LatticeVal" where
  "constantOf c = \<lparr>Val_Pointer = Some c, Val_Int = constantLV\<rparr>"


definition overdefinedOf :: "ConstantPtr \<Rightarrow> LatticeVal" where
  "overdefinedOf p = \<lparr>Val_Pointer = p, Val_Int = overdefinedLV\<rparr>"

text \<open>A visitor that leaves the IR as it is when it returns.\<close>

definition preservesIR :: "Visitor \<Rightarrow> bool" where
  "preservesIR v \<longleftrightarrow> (\<forall>I st st'. v I st = Inr st' \<longrightarrow> IR st' = IR st)"

text \<open>
  A function whose entry block 0 ends in a conditional branch on the literal undef, to
  the blocks 1 and 2, which return.  Block \<open>b\<close> holds the instruction \<open>b\<close>.
\<close>

definition branchOnUndef :: Module where
  "branchOnUndef =
     \<lparr>getInst = (\<lambda>i. if i = 0
                      then noInstruction\<lparr>Inst_Opcode := Br,
                             Operands := [Const (UndefValue (IntegerTy 1))], Successors := [1, 2]\<rparr>
                      else noInstruction\<lparr>Inst_Opcode := Ret, Inst_Parent := i\<rparr>),
      getBlock = (\<lambda>b. \<lparr>Insts = [b], BB_Parent = 0\<rparr>),
      getFunction = (\<lambda>f. \<lparr>Blocks = [0, 1, 2], Args = [], ReturnType = VoidTy,
                           Function_Type = OtherTy 0, onlyReadsMemory = False\<rparr>),
      uses = (\<lambda>v. [])\<rparr>"

text \<open>
  \<open>touch V st\<close> is the state after \<open>getValueState\<close> has been asked for the scalar value
  \<open>V\<close>: the entry exists, with the value \<open>peek\<close> reads.  \<open>seeded st st'\<close> says that \<open>st'\<close>
  is \<open>st\<close> with no more than such entries added: no member but \<open>ValueState\<close> differs, no
  entry is lost, and every value reads as before.
\<close>

definition touch :: "Value \<Rightarrow> SCCPSolver \<Rightarrow> SCCPSolver" where
  "touch V st = st\<lparr>ValueState := (ValueState st)(V \<mapsto> peek st V)\<rparr>"










section \<open>Theorems\<close>

lemma bindE_Inr_iff: "bindE m f = Inr y \<longleftrightarrow> (\<exists>x. m = Inr x \<and> f x = Inr y)"
  by (cases m) (simp_all add: bindE_def)

lemma bindE_simps [simp]: "bindE (Inl e) f = Inl e" "bindE (Inr x) f = f x"
  by (simp_all add: bindE_def)

lemmas lv_defs = isUndefined_def isConstant_def isOverdefined_def getLatticeValue_def
  getConstant_def isConstantOf_def isForcedConstantOf_def LatticeVal_init_def

subsection \<open>The lattice value\<close>





text \<open>
  Claim C3.  \<open>markConstant(c)\<close> answers "unchanged" and leaves the state as it is when
  the state is Constant(c); fails the assertion when the state is plain Constant of a
  different constant; moves ForcedConstant(c') with c' \<noteq> c to Overdefined and answers
  "changed"; and moves Undefined to Constant(c), answering "changed".
\<close>

theorem markConstant_contract:
  "(isConstantOf lv c \<longrightarrow> LatticeVal_markConstant (Some c) lv = Inr (False, lv)) \<and>
   (isConstantOf lv c' \<and> c' \<noteq> c \<longrightarrow>
      LatticeVal_markConstant (Some c) lv = Inl Assert_MarkingConstantWithDifferentValue) \<and>
   (isForcedConstantOf lv c' \<and> c' \<noteq> c \<longrightarrow>
      LatticeVal_markConstant (Some c) lv = Inr (True, lv\<lparr>Val_Int := overdefinedLV\<rparr>)
      \<and> isOverdefined (lv\<lparr>Val_Int := overdefinedLV\<rparr>)) \<and>
   (isUndefined lv \<longrightarrow>
      LatticeVal_markConstant (Some c) lv
        = Inr (True, \<lparr>Val_Pointer = Some c, Val_Int = constantLV\<rparr>)
      \<and> isConstantOf \<lparr>Val_Pointer = Some c, Val_Int = constantLV\<rparr> c)"
  by (auto simp: LatticeVal_markConstant_def lv_defs)

theorem markConstant_contract_witness:
  "LatticeVal_markConstant (Some (ConstantInt 32 7))
     \<lparr>Val_Pointer = Some (ConstantInt 32 7), Val_Int = constantLV\<rparr>
     = Inr (False, \<lparr>Val_Pointer = Some (ConstantInt 32 7), Val_Int = constantLV\<rparr>)
   \<and> LatticeVal_markConstant (Some (ConstantInt 32 7))
     \<lparr>Val_Pointer = Some (ConstantInt 32 5), Val_Int = constantLV\<rparr>
     = Inl Assert_MarkingConstantWithDifferentValue
   \<and> LatticeVal_markConstant (Some (ConstantInt 32 7))
     \<lparr>Val_Pointer = Some (ConstantInt 32 5), Val_Int = forcedconstantLV\<rparr>
     = Inr (True, \<lparr>Val_Pointer = Some (ConstantInt 32 5), Val_Int = overdefinedLV\<rparr>)
   \<and> LatticeVal_markConstant (Some (ConstantInt 32 7)) LatticeVal_init
     = Inr (True, \<lparr>Val_Pointer = Some (ConstantInt 32 7), Val_Int = constantLV\<rparr>)"
  using
    markConstant_contract[of "\<lparr>Val_Pointer = Some (ConstantInt 32 7), Val_Int = constantLV\<rparr>"
      "ConstantInt 32 7" "ConstantInt 32 5"]
    markConstant_contract[of "\<lparr>Val_Pointer = Some (ConstantInt 32 5), Val_Int = constantLV\<rparr>"
      "ConstantInt 32 7" "ConstantInt 32 5"]
    markConstant_contract[of "\<lparr>Val_Pointer = Some (ConstantInt 32 5), Val_Int = forcedconstantLV\<rparr>"
      "ConstantInt 32 7" "ConstantInt 32 5"]
    markConstant_contract[of LatticeVal_init "ConstantInt 32 7" "ConstantInt 32 5"]
  by (simp add: lv_defs)

subsection \<open>The state store\<close>

lemma deref_assign [simp]: "deref (assign r lv st) r = lv"
  by (cases r) (simp_all add: orInit_def)

lemma deref_OverdefinedInstWorkList_update [simp]:
  "deref (st\<lparr>OverdefinedInstWorkList := x\<rparr>) r = deref st r"
  by (cases r) simp_all

lemma deref_InstWorkList_update [simp]:
  "deref (st\<lparr>InstWorkList := x\<rparr>) r = deref st r"
  by (cases r) simp_all

text \<open>
  Claim C4.  \<open>mergeInValue\<close> is the merge rule of the lattice: an Undefined incoming
  value changes nothing; a target that is Overdefined is left as it is; an Overdefined
  incoming value makes the target Overdefined; a constant merged into an Undefined target
  makes the target that constant; two different constants make the target Overdefined;
  identical constants change nothing.
\<close>

theorem mergeInValue_rule:
  "(isUndefined M \<longrightarrow> mergeInValue_ref IV V M st = Inr st) \<and>
   (isOverdefined (deref st IV) \<longrightarrow> mergeInValue_ref IV V M st = Inr st) \<and>
   (isOverdefined M \<longrightarrow>
      (\<exists>st'. mergeInValue_ref IV V M st = Inr st' \<and> isOverdefined (deref st' IV))) \<and>
   (isConstant M \<and> Val_Pointer M = Some c \<and> isUndefined (deref st IV) \<longrightarrow>
      (\<exists>st'. mergeInValue_ref IV V M st = Inr st' \<and> isConstantOf (deref st' IV) c)) \<and>
   (isConstant M \<and> isConstant (deref st IV) \<and> Val_Pointer M \<noteq> Val_Pointer (deref st IV) \<longrightarrow>
      (\<exists>st'. mergeInValue_ref IV V M st = Inr st' \<and> isOverdefined (deref st' IV))) \<and>
   (isConstant M \<and> isConstant (deref st IV) \<and> Val_Pointer M = Val_Pointer (deref st IV) \<longrightarrow>
      mergeInValue_ref IV V M st = Inr st)"
  by (auto simp: mergeInValue_ref_def markOverdefined_ref_def markConstant_ref_def
        LatticeVal_markOverdefined_def LatticeVal_markConstant_def lv_defs Let_def)

theorem mergeInValue_rule_witness:
  "mergeInValue_ref (ValueStateRef (Inst 1)) (Inst 1) LatticeVal_init (cellState (constantOf (ConstantInt 32 7)))
     = Inr (cellState (constantOf (ConstantInt 32 7)))
   \<and> mergeInValue_ref (ValueStateRef (Inst 1)) (Inst 1) (constantOf (ConstantInt 32 7))
        (cellState (overdefinedOf None)) = Inr (cellState (overdefinedOf None))
   \<and> (\<exists>st'. mergeInValue_ref (ValueStateRef (Inst 1)) (Inst 1) (overdefinedOf None)
               (cellState (constantOf (ConstantInt 32 7))) = Inr st'
             \<and> isOverdefined (deref st' (ValueStateRef (Inst 1))))
   \<and> (\<exists>st'. mergeInValue_ref (ValueStateRef (Inst 1)) (Inst 1) (constantOf (ConstantInt 32 7))
               (cellState LatticeVal_init) = Inr st'
             \<and> isConstantOf (deref st' (ValueStateRef (Inst 1))) (ConstantInt 32 7))
   \<and> (\<exists>st'. mergeInValue_ref (ValueStateRef (Inst 1)) (Inst 1) (constantOf (ConstantInt 32 1))
               (cellState (constantOf (ConstantInt 32 2))) = Inr st'
             \<and> isOverdefined (deref st' (ValueStateRef (Inst 1))))
   \<and> mergeInValue_ref (ValueStateRef (Inst 1)) (Inst 1) (constantOf (ConstantInt 32 7))
        (cellState (constantOf (ConstantInt 32 7))) = Inr (cellState (constantOf (ConstantInt 32 7)))"
  using
    mergeInValue_rule[of LatticeVal_init "ValueStateRef (Inst 1)" "Inst 1"
      "cellState (constantOf (ConstantInt 32 7))" "ConstantInt 32 7"]
    mergeInValue_rule[of "constantOf (ConstantInt 32 7)" "ValueStateRef (Inst 1)" "Inst 1"
      "cellState (overdefinedOf None)" "ConstantInt 32 7"]
    mergeInValue_rule[of "overdefinedOf None" "ValueStateRef (Inst 1)" "Inst 1"
      "cellState (constantOf (ConstantInt 32 7))" "ConstantInt 32 7"]
    mergeInValue_rule[of "constantOf (ConstantInt 32 7)" "ValueStateRef (Inst 1)" "Inst 1"
      "cellState LatticeVal_init" "ConstantInt 32 7"]
    mergeInValue_rule[of "constantOf (ConstantInt 32 1)" "ValueStateRef (Inst 1)" "Inst 1"
      "cellState (constantOf (ConstantInt 32 2))" "ConstantInt 32 1"]
    mergeInValue_rule[of "constantOf (ConstantInt 32 7)" "ValueStateRef (Inst 1)" "Inst 1"
      "cellState (constantOf (ConstantInt 32 7))" "ConstantInt 32 7"]
  by (simp add: lv_defs cellState_def constantOf_def overdefinedOf_def orInit_def)

lemma getValueState_absent:
  "\<not> isStructTy (typeOf st V) \<Longrightarrow> ValueState st V = None \<Longrightarrow>
   getValueState_val V st = Inr (seedOf V, st\<lparr>ValueState := (ValueState st)(V \<mapsto> seedOf V)\<rparr>)"
  by (auto simp: getValueState_val_def getValueState_def seedOf_def LatticeVal_markConstant_def
        lv_defs orInit_def split: Value.splits)

lemma getStructValueState_absent:
  assumes "isStructTy (typeOf st V)" "i < getNumElements (typeOf st V)"
    "StructValueState st (V, i) = None"
  shows "\<forall>t cs. V = Const (ConstantStruct t cs) \<and> i < length cs \<longrightarrow>
            (\<exists>lv. getStructValueState_val ext V i st
                    = Inr (lv, st\<lparr>StructValueState := (StructValueState st)((V, i) \<mapsto> lv)\<rparr>)
                  \<and> isConstantOf lv (cs ! i))"
    and "\<forall>t. V = Const (ConstantAggregateZero t) \<longrightarrow>
            (\<exists>lv FieldTy. getElementType t i = Inr FieldTy \<and> getStructValueState_val ext V i st
                    = Inr (lv, st\<lparr>StructValueState := (StructValueState st)((V, i) \<mapsto> lv)\<rparr>)
                  \<and> isConstantOf lv (Constant_getNullValue ext FieldTy))"
    and "(\<exists>t. V = Const (UndefValue t)) \<or> (\<forall>C. V \<noteq> Const C) \<longrightarrow>
            getStructValueState_val ext V i st
              = Inr (LatticeVal_init,
                     st\<lparr>StructValueState := (StructValueState st)((V, i) \<mapsto> LatticeVal_init)\<rparr>)"
    and "\<forall>C. V = Const C \<and> \<not> isUndefValue C \<and> (\<forall>t cs. C \<noteq> ConstantStruct t cs)
               \<and> (\<forall>t. C \<noteq> ConstantAggregateZero t) \<longrightarrow>
            (\<exists>lv. getStructValueState_val ext V i st
                    = Inr (lv, st\<lparr>StructValueState := (StructValueState st)((V, i) \<mapsto> lv)\<rparr>)
                  \<and> isOverdefined lv)"
  using assms
     apply (auto simp: getStructValueState_val_def getStructValueState_def LatticeVal_markConstant_def
        LatticeVal_markOverdefined_def typeOf_def
        lv_defs orInit_def split: Value.splits Constant.splits)
  subgoal for t by (cases t) auto
  done


text \<open>
  Claim C9, as the code has it.  On the first access to a scalar value, \<open>getValueState\<close>
  seeds a literal constant other than the undef sentinel to Constant(itself), and the
  undef sentinel and every value that is not a constant to Undefined.  On the first
  access to field \<open>i\<close> of a struct-typed value, \<open>getStructValueState\<close> seeds the field of a
  struct literal to its \<open>i\<close>-th sub-constant, the field of an aggregate-zero literal to the
  zero value of the field's type, the field of the undef sentinel and of a value that is
  not a constant to Undefined, and the field of a constant of any other shape to
  Overdefined.
\<close>

theorem lazy_seeding:
  "(\<not> isStructTy (typeOf st V) \<and> ValueState st V = None \<longrightarrow>
      getValueState_val V st = Inr (seedOf V, st\<lparr>ValueState := (ValueState st)(V \<mapsto> seedOf V)\<rparr>)
      \<and> (\<forall>C. V = Const C \<and> \<not> isUndefValue C \<longrightarrow> isConstantOf (seedOf V) C)
      \<and> ((\<exists>t. V = Const (UndefValue t)) \<or> (\<forall>C. V \<noteq> Const C) \<longrightarrow> seedOf V = LatticeVal_init)) \<and>
   (isStructTy (typeOf st V) \<and> i < getNumElements (typeOf st V) \<and> StructValueState st (V, i) = None \<longrightarrow>
      (\<forall>t cs. V = Const (ConstantStruct t cs) \<and> i < length cs \<longrightarrow>
         (\<exists>lv. getStructValueState_val ext V i st
                 = Inr (lv, st\<lparr>StructValueState := (StructValueState st)((V, i) \<mapsto> lv)\<rparr>)
               \<and> isConstantOf lv (cs ! i)))
      \<and> (\<forall>t. V = Const (ConstantAggregateZero t) \<longrightarrow>
         (\<exists>lv FieldTy. getElementType t i = Inr FieldTy \<and> getStructValueState_val ext V i st
                 = Inr (lv, st\<lparr>StructValueState := (StructValueState st)((V, i) \<mapsto> lv)\<rparr>)
               \<and> isConstantOf lv (Constant_getNullValue ext FieldTy)))
      \<and> ((\<exists>t. V = Const (UndefValue t)) \<or> (\<forall>C. V \<noteq> Const C) \<longrightarrow>
            getStructValueState_val ext V i st
              = Inr (LatticeVal_init,
                     st\<lparr>StructValueState := (StructValueState st)((V, i) \<mapsto> LatticeVal_init)\<rparr>))
      \<and> (\<forall>C. V = Const C \<and> \<not> isUndefValue C \<and> (\<forall>t cs. C \<noteq> ConstantStruct t cs)
               \<and> (\<forall>t. C \<noteq> ConstantAggregateZero t) \<longrightarrow>
            (\<exists>lv. getStructValueState_val ext V i st
                    = Inr (lv, st\<lparr>StructValueState := (StructValueState st)((V, i) \<mapsto> lv)\<rparr>)
                  \<and> isOverdefined lv)))"
proof -
  have scalar: "\<not> isStructTy (typeOf st V) \<and> ValueState st V = None \<longrightarrow>
      getValueState_val V st = Inr (seedOf V, st\<lparr>ValueState := (ValueState st)(V \<mapsto> seedOf V)\<rparr>)
      \<and> (\<forall>C. V = Const C \<and> \<not> isUndefValue C \<longrightarrow> isConstantOf (seedOf V) C)
      \<and> ((\<exists>t. V = Const (UndefValue t)) \<or> (\<forall>C. V \<noteq> Const C) \<longrightarrow> seedOf V = LatticeVal_init)"
    by (auto simp: getValueState_absent seedOf_def isConstantOf_def split: Value.splits)
  show ?thesis
    using scalar getStructValueState_absent[of st V i ext] by blast
qed

theorem lazy_seeding_witness:
  "getValueState_val (Const (ConstantInt 32 7)) (SCCPSolver_new emptyModule)
     = Inr (constantOf (ConstantInt 32 7),
            (SCCPSolver_new emptyModule)\<lparr>ValueState := [Const (ConstantInt 32 7) \<mapsto>
               constantOf (ConstantInt 32 7)]\<rparr>)
   \<and> getValueState_val (Const (UndefValue (IntegerTy 32))) (SCCPSolver_new emptyModule)
     = Inr (LatticeVal_init,
            (SCCPSolver_new emptyModule)\<lparr>ValueState := [Const (UndefValue (IntegerTy 32)) \<mapsto>
               LatticeVal_init]\<rparr>)
   \<and> (\<exists>lv st'. getStructValueState_val exampleExternals
          (Const (ConstantStruct (StructTy [IntegerTy 32, IntegerTy 8])
                    [ConstantInt 32 7, ConstantInt 8 1])) 1 (SCCPSolver_new emptyModule) = Inr (lv, st')
        \<and> isConstantOf lv (ConstantInt 8 1))
   \<and> (\<exists>lv st'. getStructValueState_val exampleExternals
          (Const (ConstantAggregateZero (StructTy [IntegerTy 32, IntegerTy 8]))) 1
          (SCCPSolver_new emptyModule) = Inr (lv, st')
        \<and> isConstantOf lv (ConstantInt 8 0))
   \<and> (\<exists>st'. getStructValueState_val exampleExternals
          (Argument 0 0 (StructTy [IntegerTy 32, IntegerTy 8])) 1
          (SCCPSolver_new emptyModule) = Inr (LatticeVal_init, st'))
   \<and> (\<exists>lv st'. getStructValueState_val exampleExternals
          (Const (OtherConstant 9 (StructTy [IntegerTy 32, IntegerTy 8]))) 1
          (SCCPSolver_new emptyModule) = Inr (lv, st')
        \<and> isOverdefined lv)"
proof -
  let ?s = "SCCPSolver_new emptyModule"
  let ?T = "StructTy [IntegerTy 32, IntegerTy 8]"
  have ty: "typeOf ?s V = Value_getType emptyModule V" for V
    by (simp add: typeOf_def SCCPSolver_new_def)
  have e1: "ValueState ?s = Map.empty" and e2: "StructValueState ?s = Map.empty"
    by (simp_all add: SCCPSolver_new_def)
  have 1: "getValueState_val (Const (ConstantInt 32 7)) ?s
     = Inr (constantOf (ConstantInt 32 7),
            ?s\<lparr>ValueState := [Const (ConstantInt 32 7) \<mapsto> constantOf (ConstantInt 32 7)]\<rparr>)"
    using lazy_seeding[of ?s "Const (ConstantInt 32 7)" 0 exampleExternals]
    by (simp add: ty e1 seedOf_def constantOf_def)
  have 2: "getValueState_val (Const (UndefValue (IntegerTy 32))) ?s
     = Inr (LatticeVal_init, ?s\<lparr>ValueState := [Const (UndefValue (IntegerTy 32)) \<mapsto> LatticeVal_init]\<rparr>)"
    using lazy_seeding[of ?s "Const (UndefValue (IntegerTy 32))" 0 exampleExternals]
    by (simp add: ty e1 seedOf_def)
  have 3: "\<exists>lv st'. getStructValueState_val exampleExternals
          (Const (ConstantStruct ?T [ConstantInt 32 7, ConstantInt 8 1])) 1 ?s = Inr (lv, st')
        \<and> isConstantOf lv (ConstantInt 8 1)"
    using lazy_seeding[of ?s "Const (ConstantStruct ?T [ConstantInt 32 7, ConstantInt 8 1])"
        1 exampleExternals]
    by (simp add: ty e2) blast
  have 4: "\<exists>lv st'. getStructValueState_val exampleExternals (Const (ConstantAggregateZero ?T)) 1 ?s
          = Inr (lv, st') \<and> isConstantOf lv (ConstantInt 8 0)"
    using lazy_seeding[of ?s "Const (ConstantAggregateZero ?T)" 1 exampleExternals]
    by (simp add: ty e2 exampleExternals_def) blast
  have 5: "\<exists>st'. getStructValueState_val exampleExternals (Argument 0 0 ?T) 1 ?s
          = Inr (LatticeVal_init, st')"
    using lazy_seeding[of ?s "Argument 0 0 ?T" 1 exampleExternals]
    by (simp add: ty e2)
  have 6: "\<exists>lv st'. getStructValueState_val exampleExternals (Const (OtherConstant 9 ?T)) 1 ?s
          = Inr (lv, st') \<and> isOverdefined lv"
    using lazy_seeding[of ?s "Const (OtherConstant 9 ?T)" 1 exampleExternals]
    by (simp add: ty e2) blast
  from 1 2 3 4 5 6 show ?thesis by blast
qed

text \<open>
  The claim as it was stated sends the fields of every constant that is neither a struct
  literal nor an aggregate-zero literal to Overdefined.  The fields of the undef sentinel
  of a struct type are seeded Undefined.
\<close>

theorem lazy_seeding_counterexample:
  "getStructValueState_val exampleExternals (Const (UndefValue (StructTy [IntegerTy 32]))) 0
     (SCCPSolver_new emptyModule)
     = Inr (LatticeVal_init,
            (SCCPSolver_new emptyModule)\<lparr>StructValueState :=
               [(Const (UndefValue (StructTy [IntegerTy 32])), 0) \<mapsto> LatticeVal_init]\<rparr>)
   \<and> \<not> isOverdefined LatticeVal_init \<and> isUndefined LatticeVal_init"
  by (simp add: getStructValueState_val_def getStructValueState_def typeOf_def SCCPSolver_new_def
        lv_defs orInit_def)


subsection \<open>What the solver writes to the IR\<close>

lemma bindE_InrE: "bindE m f = Inr y \<Longrightarrow> (\<And>x. m = Inr x \<Longrightarrow> f x = Inr y \<Longrightarrow> P) \<Longrightarrow> P"
  by (auto simp: bindE_Inr_iff)

lemma foldE_inv:
  assumes "\<And>x s s'. P s \<Longrightarrow> f x s = Inr s' \<Longrightarrow> P s'"
  shows "P s \<Longrightarrow> foldE f xs s = Inr s' \<Longrightarrow> P s'"
proof (induction xs arbitrary: s)
  case Nil then show ?case by simp
next
  case (Cons x xs)
  then show ?case using assms by (auto elim!: bindE_InrE)
qed

lemma foldE_IR:
  "foldE f xs s = Inr s' \<Longrightarrow> (\<forall>x s s'. f x s = Inr s' \<longrightarrow> IR s' = IR s) \<longrightarrow> IR s' = IR s"
proof (induction xs arbitrary: s)
  case Nil then show ?case by simp
next
  case (Cons x xs)
  then show ?case by (fastforce elim!: bindE_InrE)
qed

lemma IR_assign [simp]: "IR (assign r lv st) = IR st"
  by (cases r) simp_all

lemma IR_ValueState_index [simp]: "IR (ValueState_index V st) = IR st"
  by (simp add: ValueState_index_def split: option.splits)

lemma IR_TrackedMultipleRetVals_index [simp]: "IR (TrackedMultipleRetVals_index k st) = IR st"
  by (simp add: TrackedMultipleRetVals_index_def split: option.splits)

lemma IR_markOverdefined_ref [simp]: "IR (markOverdefined_ref r V st) = IR st"
  by (simp add: markOverdefined_ref_def Let_def split: prod.splits)

lemma IR_MarkBlockExecutable [simp]: "IR (snd (MarkBlockExecutable BB st)) = IR st"
  by (simp add: MarkBlockExecutable_def)

lemma IR_OverdefinedPHIs [simp]:
  "IR (InsertInOverdefinedPHIs I PN st) = IR st" "IR (RemoveFromOverdefinedPHIs I PN st) = IR st"
  by (simp_all add: InsertInOverdefinedPHIs_def RemoveFromOverdefinedPHIs_def)

lemma IR_markConstant_ref: "markConstant_ref r V C st = Inr st' \<Longrightarrow> IR st' = IR st"
  by (auto simp: markConstant_ref_def Let_def elim!: bindE_InrE split: if_splits)

lemma IR_markConstant: "markConstant V C st = Inr st' \<Longrightarrow> IR st' = IR st"
  by (auto simp: markConstant_def split: if_splits dest!: IR_markConstant_ref)

lemma IR_markForcedConstant: "markForcedConstant V C st = Inr st' \<Longrightarrow> IR st' = IR st"
  by (auto simp: markForcedConstant_def Let_def elim!: bindE_InrE split: if_splits)

lemma IR_markOverdefined: "markOverdefined V st = Inr st' \<Longrightarrow> IR st' = IR st"
  by (auto simp: markOverdefined_def split: if_splits)

lemma IR_mergeInValue_ref: "mergeInValue_ref r V M st = Inr st' \<Longrightarrow> IR st' = IR st"
  by (auto simp: mergeInValue_ref_def elim!: bindE_InrE split: if_splits dest!: IR_markConstant_ref)

lemma IR_mergeInValue: "mergeInValue V M st = Inr st' \<Longrightarrow> IR st' = IR st"
  by (auto simp: mergeInValue_def split: if_splits dest!: IR_mergeInValue_ref)

lemma IR_getValueState: "getValueState V st = Inr st' \<Longrightarrow> IR st' = IR st"
  by (auto simp: getValueState_def elim!: bindE_InrE split: if_splits option.splits Value.splits)

lemma IR_getValueState_val: "getValueState_val V st = Inr (lv, st') \<Longrightarrow> IR st' = IR st"
  by (auto simp: getValueState_val_def elim!: bindE_InrE dest!: IR_getValueState)

lemma IR_getStructValueState: "getStructValueState ext V i st = Inr st' \<Longrightarrow> IR st' = IR st"
  by (auto simp: getStructValueState_def elim!: bindE_InrE
      split: if_splits option.splits Value.splits Constant.splits)

lemma IR_getStructValueState_val: "getStructValueState_val ext V i st = Inr (lv, st') \<Longrightarrow> IR st' = IR st"
  by (auto simp: getStructValueState_val_def elim!: bindE_InrE dest!: IR_getStructValueState)

lemma IR_markAnythingOverdefined: "markAnythingOverdefined ext V st = Inr st' \<Longrightarrow> IR st' = IR st"
  unfolding markAnythingOverdefined_def
  apply (simp split: if_splits)
   apply (erule foldE_inv[where P="\<lambda>s. IR s = IR st", rotated 2])
    apply (auto elim!: bindE_InrE dest!: IR_getStructValueState IR_markOverdefined)
  done

lemma IR_getFeasibleSuccessors: "getFeasibleSuccessors ext TI st = Inr (S, st') \<Longrightarrow> IR st' = IR st"
  by (auto simp: getFeasibleSuccessors_def Let_def elim!: bindE_InrE
      split: if_splits option.splits dest!: IR_getValueState_val)

lemma IR_isEdgeFeasible: "isEdgeFeasible ext From To st = Inr (b, st') \<Longrightarrow> IR st' = IR st"
  by (auto simp: isEdgeFeasible_def Let_def elim!: bindE_InrE
      split: if_splits option.splits dest!: IR_getValueState_val)

lemma IR_visitPHINode_operands:
  "visitPHINode_operands ext PN P is OperandVal st = Inr st' \<Longrightarrow> IR st' = IR st"
proof (induction "is" arbitrary: OperandVal st)
  case Nil
  then show ?case by (auto split: if_splits dest!: IR_markConstant)
next
  case (Cons i "is")
  from Cons.prems show ?case
    by (auto elim!: bindE_InrE split: if_splits
        dest!: IR_getValueState_val IR_isEdgeFeasible IR_markOverdefined Cons.IH)
qed


lemma IR_visitPHINode:
  "preservesIR v \<Longrightarrow> visitPHINode v ext PN st = Inr st' \<Longrightarrow> IR st' = IR st"
  unfolding visitPHINode_def Let_def
  apply (auto elim!: bindE_InrE split: if_splits
      dest!: IR_markAnythingOverdefined IR_getValueState_val IR_markOverdefined IR_visitPHINode_operands)
  apply (erule foldE_inv[where P="\<lambda>s. IR s = IR st", rotated 2])
   apply (auto simp: preservesIR_def)
  done

lemma IR_markEdgeExecutable:
  "preservesIR v \<Longrightarrow> markEdgeExecutable v ext Source Dest st = Inr st' \<Longrightarrow> IR st' = IR st"
  unfolding markEdgeExecutable_def
  apply (simp split: if_splits prod.splits bool.splits)
   apply (auto simp: MarkBlockExecutable_def split: if_splits)[1]
  apply (erule foldE_inv[where P="\<lambda>s. IR s = IR st", rotated 2])
   apply (auto simp: MarkBlockExecutable_def split: if_splits dest!: IR_visitPHINode)
  done

lemma IR_visitTerminatorInst:
  "preservesIR v \<Longrightarrow> visitTerminatorInst v ext TI st = Inr st' \<Longrightarrow> IR st' = IR st"
  unfolding visitTerminatorInst_def Let_def
  apply (auto elim!: bindE_InrE dest!: IR_getFeasibleSuccessors)
  apply (erule foldE_inv[where P="\<lambda>s. IR s = IR st", rotated 2])
   apply (auto elim!: bindE_InrE split: if_splits dest!: IR_markEdgeExecutable)
  done

lemma IR_visitReturnInst: "visitReturnInst ext I st = Inr st' \<Longrightarrow> IR st' = IR st"
  unfolding visitReturnInst_def Let_def
  apply (simp split: if_splits)
  apply (erule bindE_InrE)
  apply (simp split: if_splits)
   apply (auto elim!: bindE_InrE dest!: IR_getValueState_val IR_mergeInValue_ref)[1]
  apply (erule foldE_inv[where P="\<lambda>s. IR s = IR st", rotated 2])
   apply (auto elim!: bindE_InrE dest!: IR_getStructValueState_val IR_mergeInValue_ref)
  done

lemma IR_visitCastInst: "visitCastInst ext I st = Inr st' \<Longrightarrow> IR st' = IR st"
  by (auto simp: visitCastInst_def Let_def elim!: bindE_InrE split: if_splits
      dest!: IR_getValueState_val IR_markOverdefined IR_markConstant)

lemma IR_visitExtractValueInst: "visitExtractValueInst ext I st = Inr st' \<Longrightarrow> IR st' = IR st"
  by (auto simp: visitExtractValueInst_def Let_def elim!: bindE_InrE split: if_splits
      dest!: IR_getStructValueState_val IR_getValueState IR_markOverdefined IR_markAnythingOverdefined
        IR_mergeInValue_ref)

lemma IR_visitInsertValueInst: "visitInsertValueInst ext I st = Inr st' \<Longrightarrow> IR st' = IR st"
  unfolding visitInsertValueInst_def Let_def
  by (auto elim!: bindE_InrE split: if_splits
      dest!: IR_getStructValueState_val IR_getStructValueState IR_getValueState_val IR_mergeInValue_ref
         IR_markOverdefined IR_markAnythingOverdefined foldE_IR)

lemma IR_visitSelectInst: "visitSelectInst ext I st = Inr st' \<Longrightarrow> IR st' = IR st"
  by (auto simp: visitSelectInst_def Let_def elim!: bindE_InrE split: if_splits option.splits
      dest!: IR_getValueState_val IR_markOverdefined IR_markAnythingOverdefined IR_markConstant
        IR_mergeInValue)

lemma IR_foldOverPHIs:
  "foldOverPHIs ev PN1 PN2 is Result st = Inr (R, st') \<Longrightarrow> IR st' = IR st"
proof (induction "is" arbitrary: Result st)
  case Nil
  then show ?case by simp
next
  case (Cons i "is")
  from Cons.prems show ?case
    by (auto simp: Let_def elim!: bindE_InrE split: if_splits
        dest!: IR_getValueState_val Cons.IH)
qed

lemma IR_visitBinaryOperator_AndOr:
  "visitBinaryOperator_AndOr ext I B V1 V2 st = Inr (Some st') \<Longrightarrow> IR st' = IR st"
  by (auto simp: visitBinaryOperator_AndOr_def Let_def elim!: bindE_InrE
      split: if_splits option.splits dest!: IR_markConstant_ref)

lemma IR_visitBinaryOperator: "visitBinaryOperator ext I st = Inr st' \<Longrightarrow> IR st' = IR st"
  by (auto simp: visitBinaryOperator_def Let_def elim!: bindE_InrE
      split: if_splits option.splits
      dest!: IR_getValueState_val IR_markOverdefined IR_markConstant_ref IR_foldOverPHIs
        IR_visitBinaryOperator_AndOr)

lemma IR_visitCmpInst: "visitCmpInst ext I st = Inr st' \<Longrightarrow> IR st' = IR st"
  by (auto simp: visitCmpInst_def Let_def elim!: bindE_InrE
      split: if_splits option.splits
      dest!: IR_getValueState_val IR_markOverdefined IR_markConstant_ref IR_markConstant IR_foldOverPHIs)

lemma IR_collectConstants:
  "collectConstants I Vs Ops st = Inr (r, st') \<Longrightarrow> IR st' = IR st"
proof (induction Vs arbitrary: Ops st)
  case Nil
  then show ?case by simp
next
  case (Cons V Vs)
  from Cons.prems show ?case
    by (auto elim!: bindE_InrE split: if_splits
        dest!: IR_getValueState_val IR_markOverdefined Cons.IH)
qed

lemma IR_visitGetElementPtrInst: "visitGetElementPtrInst ext I st = Inr st' \<Longrightarrow> IR st' = IR st"
  by (auto simp: visitGetElementPtrInst_def Let_def elim!: bindE_InrE
      split: if_splits option.splits list.splits
      dest!: IR_collectConstants IR_markConstant)

lemma IR_visitStoreInst: "visitStoreInst ext I st = Inr st' \<Longrightarrow> IR st' = IR st"
  by (auto simp: visitStoreInst_def Let_def elim!: bindE_InrE
      split: if_splits option.splits Value.splits Constant.splits
      dest!: IR_getValueState_val IR_mergeInValue_ref)

lemma IR_visitLoadInst_fold: "visitLoadInst_fold ext I Ptr st = Inr st' \<Longrightarrow> IR st' = IR st"
  by (auto simp: visitLoadInst_fold_def split: option.splits dest!: IR_markConstant_ref)

lemma IR_visitLoadInst: "visitLoadInst ext I st = Inr st' \<Longrightarrow> IR st' = IR st"
  by (auto simp: visitLoadInst_def Let_def elim!: bindE_InrE
      split: if_splits option.splits Constant.splits
      dest!: IR_getValueState_val IR_mergeInValue_ref IR_markConstant_ref IR_visitLoadInst_fold
        IR_markAnythingOverdefined)

lemma IR_CallOverdefined: "CallOverdefined ext I F st = Inr st' \<Longrightarrow> IR st' = IR st"
  by (auto simp: CallOverdefined_def Let_def elim!: bindE_InrE
      split: if_splits option.splits
      dest!: IR_collectConstants IR_markConstant IR_markAnythingOverdefined)

lemma IR_propagateArguments:
  "propagateArguments ext F k AIs CAI st = Inr st' \<Longrightarrow> IR st' = IR st"
proof (induction AIs arbitrary: k CAI st)
  case Nil
  then show ?case by simp
next
  case (Cons a AIs)
  obtain t byval where a: "a = (t, byval)" by (cases a)
  from Cons.prems show ?case
    unfolding a
    by (auto simp: Let_def elim!: bindE_InrE split: if_splits list.splits
        dest!: IR_getValueState_val IR_markOverdefined IR_mergeInValue Cons.IH foldE_IR
          IR_getStructValueState_val IR_getStructValueState IR_mergeInValue_ref)
qed

lemma IR_visitCallSite: "visitCallSite ext I st = Inr st' \<Longrightarrow> IR st' = IR st"
  unfolding visitCallSite_def Let_def
  by (auto elim!: bindE_InrE split: option.splits if_splits list.splits
      dest!: IR_CallOverdefined IR_propagateArguments IR_mergeInValue foldE_IR
        IR_getStructValueState IR_mergeInValue_ref)

lemma IR_visitInvokeInst:
  "preservesIR v \<Longrightarrow> visitInvokeInst v ext I st = Inr st' \<Longrightarrow> IR st' = IR st"
  by (auto simp: visitInvokeInst_def elim!: bindE_InrE dest!: IR_visitCallSite IR_visitTerminatorInst)

lemma IR_visit_dispatch:
  "preservesIR v \<Longrightarrow> visit_dispatch v ext I st = Inr st' \<Longrightarrow> IR st' = IR st"
  unfolding visit_dispatch_def Let_def
  by (simp split: if_splits)
     (auto dest: IR_visitPHINode IR_visitReturnInst IR_visitTerminatorInst IR_visitInvokeInst
        IR_visitCastInst IR_visitSelectInst IR_visitBinaryOperator IR_visitCmpInst IR_markOverdefined
        IR_visitExtractValueInst IR_visitInsertValueInst IR_visitStoreInst IR_visitLoadInst
        IR_visitGetElementPtrInst IR_visitCallSite IR_markAnythingOverdefined)

lemma preservesIR_visit: "preservesIR (visit n ext)"
proof (induction n)
  case 0
  then show ?case by (simp add: preservesIR_def)
next
  case (Suc n)
  then show ?case
    unfolding preservesIR_def using IR_visit_dispatch[OF Suc] by auto
qed

lemma IR_visit: "visit n ext I st = Inr st' \<Longrightarrow> IR st' = IR st"
  using preservesIR_visit by (auto simp: preservesIR_def)

lemma IR_visitBasicBlock: "visitBasicBlock n ext BB st = Inr st' \<Longrightarrow> IR st' = IR st"
  by (auto simp: visitBasicBlock_def dest!: foldE_IR IR_visit)

lemma IR_OperandChangedState: "OperandChangedState n ext I st = Inr st' \<Longrightarrow> IR st' = IR st"
  by (auto simp: OperandChangedState_def split: if_splits dest!: IR_visit)

lemma IR_visitUsers: "visitUsers n ext V st = Inr st' \<Longrightarrow> IR st' = IR st"
  by (auto simp: visitUsers_def split: Value.splits dest!: foldE_IR IR_OperandChangedState)

lemma IR_Solve_OverdefinedInstWorkList:
  "Solve_OverdefinedInstWorkList k n ext st = Inr st' \<Longrightarrow> IR st' = IR st"
proof (induction k arbitrary: st)
  case 0
  then show ?case by (auto split: if_splits)
next
  case (Suc k)
  from Suc.prems show ?case
    by (auto simp: Let_def elim!: bindE_InrE split: if_splits dest!: IR_visitUsers Suc.IH)
qed

lemma IR_Solve_InstWorkList:
  "Solve_InstWorkList k n ext st = Inr st' \<Longrightarrow> IR st' = IR st"
proof (induction k arbitrary: st)
  case 0
  then show ?case by (auto split: if_splits)
next
  case (Suc k)
  from Suc.prems show ?case
    by (auto simp: Let_def elim!: bindE_InrE split: if_splits
        dest!: IR_visitUsers IR_getValueState_val Suc.IH)
qed

lemma IR_Solve_BBWorkList:
  "Solve_BBWorkList k n ext st = Inr st' \<Longrightarrow> IR st' = IR st"
proof (induction k arbitrary: st)
  case 0
  then show ?case by (auto split: if_splits)
next
  case (Suc k)
  from Suc.prems show ?case
    by (auto simp: Let_def elim!: bindE_InrE split: if_splits dest!: IR_visitBasicBlock Suc.IH)
qed

lemma IR_Solve_loop:
  "Solve_loop k n ext st = Inr st' \<Longrightarrow> IR st' = IR st"
proof (induction k arbitrary: st)
  case 0
  then show ?case by (auto split: if_splits)
next
  case (Suc k)
  from Suc.prems show ?case
    by (auto elim!: bindE_InrE split: if_splits
        dest!: IR_Solve_OverdefinedInstWorkList IR_Solve_InstWorkList IR_Solve_BBWorkList Suc.IH)
qed

lemma IR_ResolvedUndefsIn_opcode:
  "ResolvedUndefsIn_opcode ext I Op0LV Op1LV st = Inr (r, st') \<Longrightarrow> IR st' = IR st"
  by (auto simp: ResolvedUndefsIn_opcode_def Let_def elim!: bindE_InrE
      split: if_splits option.splits
      dest!: IR_markForcedConstant IR_markOverdefined IR_getValueState_val)

lemma IR_ResolvedUndefsIn_inst:
  "ResolvedUndefsIn_inst ext I st = Inr (r, st') \<Longrightarrow> IR st' = IR st"
  by (auto simp: ResolvedUndefsIn_inst_def Let_def elim!: bindE_InrE
      split: if_splits
      dest!: IR_ResolvedUndefsIn_opcode IR_getValueState IR_getValueState_val foldE_IR
        IR_getStructValueState)

lemma IR_ResolvedUndefsIn_insts:
  "ResolvedUndefsIn_insts ext Is st = Inr (r, st') \<Longrightarrow> IR st' = IR st"
proof (induction Is arbitrary: st)
  case Nil
  then show ?case by simp
next
  case (Cons I Is)
  from Cons.prems show ?case
    by (auto elim!: bindE_InrE split: if_splits dest!: IR_ResolvedUndefsIn_inst Cons.IH)
qed

text \<open>
  What \<open>ResolvedUndefsIn\<close> writes to the IR: nothing, or the literal \<open>false\<close> (for a
  branch) or the first case value (for a switch) in place of the literal undef that is
  the condition of the terminator \<open>TI\<close> of block \<open>BB\<close>.
\<close>

lemma IR_ResolvedUndefsIn_terminator:
  assumes "ResolvedUndefsIn_terminator n ext BB st = Inr (r, st')"
  shows "IR st' = IR st \<or>
         (r \<and> (\<exists>TI t C. getTerminator (IR st) BB = Some TI
                  \<and> getCondition (getInst (IR st) TI) = Inr (Const (UndefValue t))
                  \<and> (Inst_Opcode (getInst (IR st) TI) = Br \<and> C = ConstantInt_getFalse
                     \<or> Inst_Opcode (getInst (IR st) TI) = Switch
                       \<and> getCaseValue (getInst (IR st) TI) 1 = Inr C)
                  \<and> IR st' = setCondition TI (Const C) (IR st)))"
proof (cases "getTerminator (IR st) BB")
  case None
  with assms show ?thesis by (simp add: ResolvedUndefsIn_terminator_def)
next
  case (Some TI)
  have undef: "isUndefValueV V \<Longrightarrow> \<exists>t. V = Const (UndefValue t)" for V
    by (cases V rule: isUndefValueV.cases) simp_all
  from assms Some show ?thesis
    unfolding ResolvedUndefsIn_terminator_def Let_def
    by (auto elim!: bindE_InrE split: if_splits
        dest!: IR_getValueState_val IR_markForcedConstant undef
          IR_markEdgeExecutable[OF preservesIR_visit])
qed

lemma BBExecutable_assign [simp]: "BBExecutable (assign r lv st) = BBExecutable st"
  by (cases r) simp_all

lemma BBExecutable_ValueState_index [simp]: "BBExecutable (ValueState_index V st) = BBExecutable st"
  by (simp add: ValueState_index_def split: option.splits)

lemma BBExecutable_markOverdefined_ref [simp]:
  "BBExecutable (markOverdefined_ref r V st) = BBExecutable st"
  by (simp add: markOverdefined_ref_def Let_def split: prod.splits)

lemma foldE_BBExecutable:
  "foldE f xs s = Inr s' \<Longrightarrow>
   (\<forall>x s s'. f x s = Inr s' \<longrightarrow> BBExecutable s' = BBExecutable s) \<longrightarrow> BBExecutable s' = BBExecutable s"
proof (induction xs arbitrary: s)
  case Nil then show ?case by simp
next
  case (Cons x xs)
  then show ?case by (auto del: subset_antisym equalityI elim!: bindE_InrE del: subset_antisym equalityI)
qed

lemma BBExecutable_markForcedConstant:
  "markForcedConstant V C st = Inr st' \<Longrightarrow> BBExecutable st' = BBExecutable st"
  by (auto del: subset_antisym equalityI simp: markForcedConstant_def Let_def elim!: bindE_InrE split: if_splits)

lemma BBExecutable_markOverdefined:
  "markOverdefined V st = Inr st' \<Longrightarrow> BBExecutable st' = BBExecutable st"
  by (auto del: subset_antisym equalityI simp: markOverdefined_def split: if_splits)

lemma BBExecutable_getValueState:
  "getValueState V st = Inr st' \<Longrightarrow> BBExecutable st' = BBExecutable st"
  by (auto del: subset_antisym equalityI simp: getValueState_def elim!: bindE_InrE split: if_splits option.splits Value.splits)

lemma BBExecutable_getValueState_val:
  "getValueState_val V st = Inr (lv, st') \<Longrightarrow> BBExecutable st' = BBExecutable st"
  by (auto del: subset_antisym equalityI simp: getValueState_val_def elim!: bindE_InrE dest!: BBExecutable_getValueState)

lemma BBExecutable_getStructValueState:
  "getStructValueState ext V i st = Inr st' \<Longrightarrow> BBExecutable st' = BBExecutable st"
  by (auto del: subset_antisym equalityI simp: getStructValueState_def elim!: bindE_InrE
      split: if_splits option.splits Value.splits Constant.splits)

lemma BBExecutable_ResolvedUndefsIn_opcode:
  "ResolvedUndefsIn_opcode ext I Op0LV Op1LV st = Inr (r, st') \<Longrightarrow> BBExecutable st' = BBExecutable st"
  by (auto del: subset_antisym equalityI simp: ResolvedUndefsIn_opcode_def Let_def elim!: bindE_InrE
      split: if_splits option.splits
      dest!: BBExecutable_markForcedConstant BBExecutable_markOverdefined BBExecutable_getValueState_val)

lemma BBExecutable_ResolvedUndefsIn_inst:
  "ResolvedUndefsIn_inst ext I st = Inr (r, st') \<Longrightarrow> BBExecutable st' = BBExecutable st"
  by (auto del: subset_antisym equalityI simp: ResolvedUndefsIn_inst_def Let_def elim!: bindE_InrE
      split: if_splits
      dest!: BBExecutable_ResolvedUndefsIn_opcode BBExecutable_getValueState
        BBExecutable_getValueState_val foldE_BBExecutable BBExecutable_getStructValueState)

lemma BBExecutable_ResolvedUndefsIn_insts:
  "ResolvedUndefsIn_insts ext Is st = Inr (r, st') \<Longrightarrow> BBExecutable st' = BBExecutable st"
proof (induction Is arbitrary: st)
  case Nil
  then show ?case by simp
next
  case (Cons I Is)
  from Cons.prems show ?case
    by (auto del: subset_antisym equalityI elim!: bindE_InrE split: if_splits dest!: BBExecutable_ResolvedUndefsIn_inst Cons.IH)
qed

lemma BBExecutable_ResolvedUndefsIn_terminator:
  "ResolvedUndefsIn_terminator n ext BB st = Inr (False, st') \<Longrightarrow> BBExecutable st' = BBExecutable st"
  unfolding ResolvedUndefsIn_terminator_def Let_def
  by (auto del: subset_antisym equalityI elim!: bindE_InrE split: if_splits option.splits dest!: BBExecutable_getValueState_val)

lemma IR_ResolvedUndefsIn_block:
  assumes "ResolvedUndefsIn_block n ext BB st = Inr (r, st')"
  shows "(\<not> r \<longrightarrow> BBExecutable st' = BBExecutable st) \<and>
         (IR st' = IR st \<or>
          (r \<and> BB \<in> BBExecutable st \<and>
             (\<exists>TI t C. getTerminator (IR st) BB = Some TI
                  \<and> getCondition (getInst (IR st) TI) = Inr (Const (UndefValue t))
                  \<and> (Inst_Opcode (getInst (IR st) TI) = Br \<and> C = ConstantInt_getFalse
                     \<or> Inst_Opcode (getInst (IR st) TI) = Switch
                       \<and> getCaseValue (getInst (IR st) TI) 1 = Inr C)
                  \<and> IR st' = setCondition TI (Const C) (IR st))))"
proof (cases "BB \<in> BBExecutable st")
  case False
  with assms show ?thesis by (simp add: ResolvedUndefsIn_block_def)
next
  case True
  with assms obtain ret st1 where
    insts: "ResolvedUndefsIn_insts ext (Insts (getBlock (IR st) BB)) st = Inr (ret, st1)" and
    rest: "(if ret then Inr (True, st1) else ResolvedUndefsIn_terminator n ext BB st1) = Inr (r, st')"
    by (auto simp: ResolvedUndefsIn_block_def elim!: bindE_InrE)
  note ir1 = IR_ResolvedUndefsIn_insts[OF insts]
  note bb1 = BBExecutable_ResolvedUndefsIn_insts[OF insts]
  show ?thesis
  proof (cases ret)
    case True
    with rest ir1 show ?thesis by simp
  next
    case False
    with rest have tm: "ResolvedUndefsIn_terminator n ext BB st1 = Inr (r, st')" by simp
    show ?thesis
      using IR_ResolvedUndefsIn_terminator[OF tm] ir1 bb1 True
        BBExecutable_ResolvedUndefsIn_terminator[of n ext BB st1 st'] tm
      by (cases r) (auto del: subset_antisym equalityI)
  qed
qed

lemma IR_ResolvedUndefsIn_blocks:
  assumes "ResolvedUndefsIn_blocks n ext BBs st = Inr (r, st')"
  shows "IR st' = IR st \<or>
          (r \<and> (\<exists>BB TI t C. BB \<in> set BBs \<and> BB \<in> BBExecutable st
                  \<and> getTerminator (IR st) BB = Some TI
                  \<and> getCondition (getInst (IR st) TI) = Inr (Const (UndefValue t))
                  \<and> (Inst_Opcode (getInst (IR st) TI) = Br \<and> C = ConstantInt_getFalse
                     \<or> Inst_Opcode (getInst (IR st) TI) = Switch
                       \<and> getCaseValue (getInst (IR st) TI) 1 = Inr C)
                  \<and> IR st' = setCondition TI (Const C) (IR st)))"
  using assms
proof (induction BBs arbitrary: st)
  case Nil
  then show ?case by simp
next
  case (Cons BB BBs)
  from Cons.prems obtain ret st1 where
    blk: "ResolvedUndefsIn_block n ext BB st = Inr (ret, st1)" and
    rest: "(if ret then Inr (True, st1) else ResolvedUndefsIn_blocks n ext BBs st1) = Inr (r, st')"
    by (auto elim!: bindE_InrE)
  show ?case
  proof (cases ret)
    case True
    with rest have "r" "st' = st1" by simp_all
    with IR_ResolvedUndefsIn_block[OF blk] True show ?thesis
      by (auto del: subset_antisym equalityI)
  next
    case False
    with rest have more: "ResolvedUndefsIn_blocks n ext BBs st1 = Inr (r, st')" by simp
    from IR_ResolvedUndefsIn_block[OF blk] False
    have same: "IR st1 = IR st" "BBExecutable st1 = BBExecutable st" by auto
    from Cons.IH[OF more] same show ?thesis
      by (auto del: subset_antisym equalityI)
  qed
qed

text \<open>
  Claim C8, as the code has it.  \<open>Solve\<close> leaves the IR as it is.  \<open>ResolvedUndefsIn\<close>
  leaves it as it is too, except when it returns \<open>true\<close> for a conditional branch or a
  switch that ends an executable block of the function and whose condition operand is the
  literal undef: then it has written the literal \<open>false\<close> (branch) or the first case value
  (switch) over that condition, and nothing else in the IR.
\<close>

theorem solver_frame:
  "(Solve n ext st = Inr st' \<longrightarrow> IR st' = IR st) \<and>
   (ResolvedUndefsIn n ext F st = Inr (r, st'') \<longrightarrow>
      IR st'' = IR st \<or>
      (r \<and> (\<exists>BB TI t C. BB \<in> set (Blocks (getFunction (IR st) F)) \<and> BB \<in> BBExecutable st
               \<and> getTerminator (IR st) BB = Some TI
               \<and> getCondition (getInst (IR st) TI) = Inr (Const (UndefValue t))
               \<and> (Inst_Opcode (getInst (IR st) TI) = Br \<and> C = ConstantInt_getFalse
                  \<or> Inst_Opcode (getInst (IR st) TI) = Switch
                    \<and> getCaseValue (getInst (IR st) TI) 1 = Inr C)
               \<and> IR st'' = setCondition TI (Const C) (IR st))))"
proof (intro conjI impI)
  assume "Solve n ext st = Inr st'"
  then show "IR st' = IR st"
    by (simp add: Solve_def IR_Solve_loop)
next
  assume "ResolvedUndefsIn n ext F st = Inr (r, st'')"
  then show "IR st'' = IR st \<or>
      (r \<and> (\<exists>BB TI t C. BB \<in> set (Blocks (getFunction (IR st) F)) \<and> BB \<in> BBExecutable st
               \<and> getTerminator (IR st) BB = Some TI
               \<and> getCondition (getInst (IR st) TI) = Inr (Const (UndefValue t))
               \<and> (Inst_Opcode (getInst (IR st) TI) = Br \<and> C = ConstantInt_getFalse
                  \<or> Inst_Opcode (getInst (IR st) TI) = Switch
                    \<and> getCaseValue (getInst (IR st) TI) 1 = Inr C)
               \<and> IR st'' = setCondition TI (Const C) (IR st)))"
    unfolding ResolvedUndefsIn_def by (rule IR_ResolvedUndefsIn_blocks)
qed

lemmas eval_defs = ResolvedUndefsIn_def ResolvedUndefsIn_block_def ResolvedUndefsIn_inst_def
      ResolvedUndefsIn_terminator_def SCCPSolver_new_def noInstruction_def
      getTerminator_def isConditional_def isUnconditional_def getNumOperands_def getCondition_def
      getOperand_def getValueState_val_def getValueState_def typeOf_def orInit_def lv_defs
      getSuccessor_def getNumSuccessors_def setCondition_def markEdgeExecutable_def
      MarkBlockExecutable_def Solve_def workListsEmpty_def visitBasicBlock_def visit_dispatch_def
      visitTerminatorInst_def getFeasibleSuccessors_def getConstantInt_def numeral_2_eq_2 Let_def

theorem solver_frame_witness:
  "map_sum id IR (Solve 2 exampleExternals (snd (MarkBlockExecutable 0 (SCCPSolver_new branchOnUndef))))
     = Inr branchOnUndef
   \<and> map_sum id (IR \<circ> snd) (ResolvedUndefsIn 2 exampleExternals 0
        ((SCCPSolver_new branchOnUndef)\<lparr>BBExecutable := {0}\<rparr>))
     = Inr (setCondition 0 (Const ConstantInt_getFalse) branchOnUndef)"
proof -
  let ?st = "snd (MarkBlockExecutable 0 (SCCPSolver_new branchOnUndef))"
  have "\<exists>S. Solve 2 exampleExternals ?st = Inr S"
    by (simp add: eval_defs branchOnUndef_def)
  then obtain S where s: "Solve 2 exampleExternals ?st = Inr S" ..
  have "IR ?st = branchOnUndef"
    by (simp add: eval_defs)
  with solver_frame[of 2 exampleExternals ?st S] s have "IR S = branchOnUndef"
    by simp
  with s have 1: "map_sum id IR (Solve 2 exampleExternals ?st) = Inr branchOnUndef"
    by simp
  have 2: "map_sum id (IR \<circ> snd) (ResolvedUndefsIn 2 exampleExternals 0
        ((SCCPSolver_new branchOnUndef)\<lparr>BBExecutable := {0}\<rparr>))
     = Inr (setCondition 0 (Const ConstantInt_getFalse) branchOnUndef)"
    by (simp add: eval_defs branchOnUndef_def)
  from 1 2 show ?thesis ..
qed

text \<open>
  The claim as it was stated has the solver leave every branch condition of the IR as it
  was.  On a function whose entry block ends in a branch on the literal undef,
  \<open>ResolvedUndefsIn\<close> writes \<open>false\<close> over the condition.
\<close>

theorem solver_frame_counterexample:
  "map_sum id (IR \<circ> snd) (ResolvedUndefsIn 2 exampleExternals 0
        ((SCCPSolver_new branchOnUndef)\<lparr>BBExecutable := {0}\<rparr>))
     = Inr (setCondition 0 (Const ConstantInt_getFalse) branchOnUndef)
   \<and> Operands (getInst (setCondition 0 (Const ConstantInt_getFalse) branchOnUndef) 0)
       = [Const (ConstantInt 1 0)]
   \<and> Operands (getInst branchOnUndef 0) = [Const (UndefValue (IntegerTy 1))]"
  by (simp add: eval_defs branchOnUndef_def ConstantInt_getFalse_def)

subsection \<open>Lazy seeding changes no reading\<close>




lemma ValueState_touch_same [simp]: "ValueState (touch V st) V = Some (peek st V)"
  by (simp add: touch_def)

lemma orInit_Some [simp]: "orInit (Some lv) = lv"
  by (simp add: orInit_def)


lemma touch_fields [simp]:
  "IR (touch V st) = IR st"
  "BBExecutable (touch V st) = BBExecutable st"
  "StructValueState (touch V st) = StructValueState st"
  "TrackedGlobals (touch V st) = TrackedGlobals st"
  "TrackedRetVals (touch V st) = TrackedRetVals st"
  "TrackedMultipleRetVals (touch V st) = TrackedMultipleRetVals st"
  "MRVFunctionsTracked (touch V st) = MRVFunctionsTracked st"
  "TrackingIncomingArguments (touch V st) = TrackingIncomingArguments st"
  "OverdefinedInstWorkList (touch V st) = OverdefinedInstWorkList st"
  "InstWorkList (touch V st) = InstWorkList st"
  "BBWorkList (touch V st) = BBWorkList st"
  "UsersOfOverdefinedPHIs (touch V st) = UsersOfOverdefinedPHIs st"
  "KnownFeasibleEdges (touch V st) = KnownFeasibleEdges st"
  by (simp_all add: touch_def)

lemma typeOf_touch [simp]: "typeOf (touch V st) W = typeOf st W"
  by (simp add: typeOf_def)









subsection \<open>Feasible successors\<close>





subsection \<open>The bitwise short cut\<close>



lemma peek_assign_same [simp]: "peek (assign (ValueStateRef V) lv st) V = lv"
  by (simp add: peek_def)

lemma peek_worklists [simp]:
  "peek (st\<lparr>InstWorkList := x\<rparr>) V = peek st V"
  "peek (st\<lparr>OverdefinedInstWorkList := y\<rparr>) V = peek st V"
  by (simp_all add: peek_def)





subsection \<open>Branches and switches on an undefined condition\<close>


lemma isUndefValueV_iff: "isUndefValueV V \<longleftrightarrow> (\<exists>t. V = Const (UndefValue t))"
  by (cases V rule: isUndefValueV.cases) simp_all





subsection \<open>One forced decision for each call of ResolvedUndefsIn\<close>



















end
